theory Spec2Isabelle
  imports Complex_Main "HOL-Library.Word" "HOL-Library.Log_Nat"
begin

section \<open>Package backoff: exponential backoff with jitter\<close>

text \<open>
  \<^verbatim>\<open>time.Duration\<close> is an \<^verbatim>\<open>int64\<close> count of nanoseconds: a 64-bit word, compared through
  its two's complement reading \<open>sint\<close>, with wrapping addition; \<open>ns d\<close> is that count as a
  real number.
\<close>

type_synonym duration = "64 word"

definition ns :: "duration \<Rightarrow> real" where
  "ns d = real_of_int (sint d)"

text \<open>
  A \<^verbatim>\<open>float64\<close> is an IEEE 754 binary64 value: a finite number, an infinity or a NaN. The
  sign of a zero is not kept: \<^verbatim>\<open>Delay\<close> multiplies, subtracts and converts to an integer,
  and none of these tells the two zeros apart.
\<close>

datatype float64 = Finite real | PosInf | NegInf | NaN

text \<open>
  Rounding to binary64, to nearest with ties to even. \<open>exponent x\<close> is the \<open>e\<close> with
  \<open>2 ^ e \<le> \<bar>x\<bar> < 2 ^ (e + 1)\<close>. The binary64 values around \<open>x\<close> are the multiples of
  \<open>ulp x\<close>, which is \<open>2 ^ (e - 52)\<close> (53 significant bits), and \<open>2 ^ (- 1074)\<close> below the
  least normal number \<open>2 ^ (- 1022)\<close>. \<open>nearest x\<close> is the multiple nearest to \<open>x\<close>, the
  even one of two equally near. A result of magnitude \<open>2 ^ 1024\<close> or more is an infinity.
\<close>

definition roundHalfEven :: "real \<Rightarrow> int" where
  "roundHalfEven x =
     (let n = \<lfloor>x\<rfloor>; r = x - real_of_int n
      in if r < 1 / 2 then n else if 1 / 2 < r then n + 1 else if even n then n else n + 1)"

definition exponent :: "real \<Rightarrow> int" where
  "exponent x =
     (if 1 \<le> \<bar>x\<bar> then bitlen \<lfloor>\<bar>x\<bar>\<rfloor> - 1 else - bitlen (\<lceil>1 / \<bar>x\<bar>\<rceil> - 1))"

definition pow2 :: "int \<Rightarrow> real" where
  "pow2 k = (if 0 \<le> k then 2 ^ nat k else 1 / 2 ^ nat (- k))"

definition ulp :: "real \<Rightarrow> real" where
  "ulp x = pow2 (max (exponent x) (- 1022) - 52)"

definition nearest :: "real \<Rightarrow> real" where
  "nearest x = (if x = 0 then 0 else real_of_int (roundHalfEven (x / ulp x)) * ulp x)"

definition round64 :: "real \<Rightarrow> float64" where
  "round64 x =
     (let r = nearest x
      in if 2 ^ 1024 \<le> r then PosInf else if r \<le> - (2 ^ 1024) then NegInf else Finite r)"

text \<open>The product and the difference of two \<^verbatim>\<open>float64\<close>: the exact result, rounded.\<close>

fun fmul :: "float64 \<Rightarrow> float64 \<Rightarrow> float64" where
  "fmul (Finite x) (Finite y) = round64 (x * y)"
| "fmul NaN b = NaN"
| "fmul a NaN = NaN"
| "fmul (Finite x) PosInf = (if x = 0 then NaN else if 0 < x then PosInf else NegInf)"
| "fmul (Finite x) NegInf = (if x = 0 then NaN else if 0 < x then NegInf else PosInf)"
| "fmul PosInf (Finite y) = (if y = 0 then NaN else if 0 < y then PosInf else NegInf)"
| "fmul NegInf (Finite y) = (if y = 0 then NaN else if 0 < y then NegInf else PosInf)"
| "fmul PosInf PosInf = PosInf"
| "fmul PosInf NegInf = NegInf"
| "fmul NegInf PosInf = NegInf"
| "fmul NegInf NegInf = PosInf"

fun fsub :: "float64 \<Rightarrow> float64 \<Rightarrow> float64" where
  "fsub (Finite x) (Finite y) = round64 (x - y)"
| "fsub NaN b = NaN"
| "fsub a NaN = NaN"
| "fsub PosInf PosInf = NaN"
| "fsub NegInf NegInf = NaN"
| "fsub PosInf b = PosInf"
| "fsub NegInf b = NegInf"
| "fsub (Finite x) PosInf = NegInf"
| "fsub (Finite x) NegInf = PosInf"

text \<open>
  The conversion \<^verbatim>\<open>float64(d)\<close> of a duration rounds; an \<^verbatim>\<open>int64\<close> is far below \<open>2 ^ 1024\<close>, so
  the result is finite. The conversion \<^verbatim>\<open>time.Duration(x)\<close> of a float truncates towards
  zero; when \<open>x\<close> is not finite or the truncated value does not fit \<^verbatim>\<open>int64\<close>, the Go
  specification leaves the result to the implementation, so the model takes it from a
  parameter \<open>ovf\<close>, about which nothing is assumed. \<open>amd64\<close> and \<open>arm64\<close> are that parameter
  for the two usual targets: the first yields the least \<^verbatim>\<open>int64\<close> in every such case, the
  second saturates and sends NaN to zero.
\<close>

definition float64 :: "duration \<Rightarrow> float64" where
  "float64 d = Finite (nearest (ns d))"

definition trunc :: "real \<Rightarrow> int" where
  "trunc x = (if 0 \<le> x then \<lfloor>x\<rfloor> else \<lceil>x\<rceil>)"

definition toDuration :: "(float64 \<Rightarrow> duration) \<Rightarrow> float64 \<Rightarrow> duration" where
  "toDuration ovf f =
     (case f of
        Finite x \<Rightarrow>
          if - (2 ^ 63) \<le> trunc x \<and> trunc x < 2 ^ 63 then word_of_int (trunc x) else ovf f
      | _ \<Rightarrow> ovf f)"

definition amd64 :: "float64 \<Rightarrow> duration" where
  "amd64 f = - (2 ^ 63)"

definition arm64 :: "float64 \<Rightarrow> duration" where
  "arm64 f =
     (case f of
        Finite x \<Rightarrow> if 0 < x then 2 ^ 63 - 1 else - (2 ^ 63)
      | PosInf \<Rightarrow> 2 ^ 63 - 1
      | NegInf \<Rightarrow> - (2 ^ 63)
      | NaN \<Rightarrow> 0)"

text \<open>
  The struct \<^verbatim>\<open>BackOff\<close>. Its private generator \<^verbatim>\<open>rnd\<close> is the sequence of values that
  \<^verbatim>\<open>rnd.Float64()\<close> is going to return, together with the number of values drawn so far;
  \<^verbatim>\<open>rnd.Float64()\<close> returns a finite \<^verbatim>\<open>float64\<close>, by its contract one in \<open>[0, 1)\<close>.
  The mutex only serialises the draws and has no counterpart here.
\<close>

record BackOff =
  minDelay :: duration
  maxDelay :: duration
  factor :: float64
  jitter :: float64
  rnd :: "nat \<Rightarrow> real"
  drawn :: nat

definition New :: "(nat \<Rightarrow> real) \<Rightarrow> duration \<Rightarrow> duration \<Rightarrow> float64 \<Rightarrow> float64 \<Rightarrow> BackOff" where
  "New source mn mx f j =
     \<lparr>minDelay = mn, maxDelay = mx, factor = f, jitter = j, rnd = source, drawn = 0\<rparr>"

text \<open>\<^verbatim>\<open>Default\<close>: 100 milliseconds to 10 seconds, factor \<^verbatim>\<open>2.0\<close>, jitter \<^verbatim>\<open>0.1\<close>.\<close>

definition Default :: "(nat \<Rightarrow> real) \<Rightarrow> BackOff" where
  "Default source = New source 100000000 10000000000 (round64 2) (round64 (1 / 10))"

definition Float64 :: "BackOff \<Rightarrow> float64 \<times> BackOff" where
  "Float64 b = (Finite (rnd b (drawn b)), b\<lparr>drawn := Suc (drawn b)\<rparr>)"

text \<open>\<^verbatim>\<open>func (b *BackOff) Delay(previous time.Duration) time.Duration\<close>, statement by statement;
  the second component is the receiver after the draw.\<close>

definition Delay :: "(float64 \<Rightarrow> duration) \<Rightarrow> BackOff \<Rightarrow> duration \<Rightarrow> duration \<times> BackOff" where
  "Delay ovf b previous =
     (let previous = (if sint previous < sint (minDelay b) then minDelay b else previous);
          delay = toDuration ovf (fmul (float64 previous) (factor b));
          delay = (if sint (maxDelay b) < sint delay then maxDelay b else delay);
          (u, b') = Float64 b;
          jitterFactor = fmul (fsub u (round64 (1 / 2))) (jitter b);
          jitterAmount = toDuration ovf (fmul (float64 delay) jitterFactor);
          delay = delay + jitterAmount;
          delay = (if sint delay < sint (minDelay b) then minDelay b
                   else if sint (maxDelay b) < sint delay then maxDelay b
                   else delay)
      in (delay, b'))"

text \<open>The closed formula of the specification for a policy without jitter, in its words:
  \<^verbatim>\<open>clamp(max(previous, minDelay) * factor, minDelay, maxDelay)\<close>, a real number of
  nanoseconds. \<open>smax\<close> and \<open>clamp\<close> are the same operations on durations.\<close>

definition nextDelay_spec :: "duration \<Rightarrow> duration \<Rightarrow> real \<Rightarrow> duration \<Rightarrow> real" where
  "nextDelay_spec mn mx f previous =
     (let lo = ns mn; hi = ns mx;
          x = max (ns previous) lo * f
      in if x < lo then lo else if hi < x then hi else x)"



text \<open>Policies used for concrete runs, in nanoseconds. \<open>samplePolicy\<close>: 100 to 1000,
  factor 2, jitter one half, every draw equal to 3/4. \<open>steadyPolicy\<close>: the same bounds and
  factor without jitter. \<open>truncatingPolicy\<close>: factor \<^verbatim>\<open>1.5\<close> without jitter.
  \<open>roundingPolicy\<close>: 1 to 1000, factor \<^verbatim>\<open>0.7\<close> without jitter.\<close>

definition samplePolicy :: BackOff where
  "samplePolicy = New (\<lambda>_. 3 / 4) 100 1000 (Finite 2) (Finite (1 / 2))"

definition steadyPolicy :: BackOff where
  "steadyPolicy = New (\<lambda>_. 1 / 4) 100 1000 (Finite 2) (Finite 0)"



section \<open>Package retry: error values\<close>

text \<open>
  A non-nil Go \<^verbatim>\<open>error\<close>. \<open>ErrorString a msg\<close> is the pointer \<open>a\<close> returned by a call of
  \<^verbatim>\<open>errors.New(msg)\<close>; \<open>Canceled\<close> and \<open>DeadlineExceeded\<close> are the two sentinels of package
  \<^verbatim>\<open>context\<close>, \<open>ErrAllAttemptsFailed\<close> the sentinel of this package.
  \<open>UnrecoverableError cause\<close> is \<^verbatim>\<open>&UnrecoverableError{cause}\<close>. \<open>Errorf format ws vs\<close> is the
  value of \<^verbatim>\<open>fmt.Errorf(format, ...)\<close>: \<open>ws\<close> are the operands it wraps (verb \<^verbatim>\<open>%w\<close>, returned
  by \<^verbatim>\<open>Unwrap\<close>), \<open>vs\<close> those that only contribute text (verb \<^verbatim>\<open>%v\<close>). An interface value
  of type \<^verbatim>\<open>error\<close> is an \<open>error option\<close>, \<open>None\<close> being \<^verbatim>\<open>nil\<close>. Pointer equality of two
  wrappers is equality of their contents.
\<close>

datatype error =
    ErrorString nat string
  | Canceled
  | DeadlineExceeded
  | ErrAllAttemptsFailed
  | UnrecoverableError "error option"
  | Errorf string "error list" "error list"

datatype operand = W "error option" | V "error option"

fun wrapped :: "operand list \<Rightarrow> error list" where
  "wrapped [] = []"
| "wrapped (W (Some e) # xs) = e # wrapped xs"
| "wrapped (x # xs) = wrapped xs"

fun printed :: "operand list \<Rightarrow> error list" where
  "printed [] = []"
| "printed (V (Some e) # xs) = e # printed xs"
| "printed (x # xs) = printed xs"

text \<open>\<^verbatim>\<open>fmt.Errorf\<close>: a nil operand of \<^verbatim>\<open>%w\<close> is printed but not wrapped.\<close>

definition fmt_Errorf :: "string \<Rightarrow> operand list \<Rightarrow> error" where
  "fmt_Errorf format args = Errorf format (wrapped args) (printed args)"

text \<open>\<^verbatim>\<open>errors.Is\<close>: the target is compared with every error reached by unwrapping.\<close>

fun chainIs :: "error \<Rightarrow> error \<Rightarrow> bool" where
  "chainIs (UnrecoverableError c) t =
     (UnrecoverableError c = t \<or> (case c of None \<Rightarrow> False | Some e \<Rightarrow> chainIs e t))"
| "chainIs (Errorf f ws vs) t = (Errorf f ws vs = t \<or> (\<exists>e\<in>set ws. chainIs e t))"
| "chainIs e t = (e = t)"

definition errors_Is :: "error option \<Rightarrow> error option \<Rightarrow> bool" where
  "errors_Is err target =
     (case err of
        None \<Rightarrow> target = None
      | Some e \<Rightarrow> (case target of None \<Rightarrow> False | Some t \<Rightarrow> chainIs e t))"

text \<open>\<^verbatim>\<open>errors.As\<close> with a target of type \<^verbatim>\<open>*UnrecoverableError\<close>.\<close>

fun chainAsUnrecoverable :: "error \<Rightarrow> bool" where
  "chainAsUnrecoverable (UnrecoverableError c) = True"
| "chainAsUnrecoverable (Errorf f ws vs) = (\<exists>e\<in>set ws. chainAsUnrecoverable e)"
| "chainAsUnrecoverable e = False"

definition IsUnrecoverableError :: "error option \<Rightarrow> bool" where
  "IsUnrecoverableError err = (case err of None \<Rightarrow> False | Some e \<Rightarrow> chainAsUnrecoverable e)"

definition NewUnrecoverableError :: "error option \<Rightarrow> error option" where
  "NewUnrecoverableError err =
     (case err of None \<Rightarrow> None | Some e \<Rightarrow> Some (UnrecoverableError (Some e)))"

text \<open>The error chain in the words of the specification: the error itself and all the
  errors reached from it by unwrapping.\<close>

fun chain :: "error \<Rightarrow> error list" where
  "chain (UnrecoverableError c) =
     UnrecoverableError c # (case c of None \<Rightarrow> [] | Some e \<Rightarrow> chain e)"
| "chain (Errorf f ws vs) = Errorf f ws vs # concat (map chain ws)"
| "chain e = [e]"

fun markedUnrecoverable :: "error \<Rightarrow> bool" where
  "markedUnrecoverable (UnrecoverableError c) = True"
| "markedUnrecoverable e = False"

text \<open>The two \<^verbatim>\<open>defaultRecoverable\<close> of errors.go: the one of the executor built on
  \<^verbatim>\<open>doRetry\<close> (lines 556 to 563), and the one of the executor whose loop is written inside
  \<^verbatim>\<open>Do\<close> (lines 370 to 376).\<close>

definition defaultRecoverable :: "error option \<Rightarrow> bool" where
  "defaultRecoverable err =
     (err \<noteq> None \<and> \<not> errors_Is err (Some Canceled) \<and>
      \<not> errors_Is err (Some DeadlineExceeded) \<and> \<not> IsUnrecoverableError err)"

definition defaultRecoverable_inline :: "error option \<Rightarrow> bool" where
  "defaultRecoverable_inline err =
     (err \<noteq> None \<and> \<not> errors_Is err (Some Canceled) \<and> \<not> IsUnrecoverableError err)"

section \<open>Package retry: the executor and its environment\<close>

text \<open>
  The executor acts on a world \<open>'w\<close>: whatever the operation, the callbacks, the backoff
  policy and the passing of time read and change. A \<^verbatim>\<open>context.Context\<close> is its method
  \<^verbatim>\<open>Err\<close>, read from the world, and the outcome of the statement
  \<^verbatim>\<open>select { case <-ctx.Done(): ... case <-time.After(delay): ... }\<close>: \<open>selectDone d w\<close> returns
  \<open>True\<close> when the \<^verbatim>\<open>Done\<close> case is taken, and the world after the wait.
  The interface \<^verbatim>\<open>Backoff\<close> is a pair of methods acting on the world.
\<close>

record 'w Context =
  Err :: "'w \<Rightarrow> error option"
  selectDone :: "duration \<Rightarrow> 'w \<Rightarrow> bool \<times> 'w"

record 'w Backoff =
  Backoff_MinDelay :: "'w \<Rightarrow> duration \<times> 'w"
  Backoff_Delay :: "duration \<Rightarrow> 'w \<Rightarrow> duration \<times> 'w"

text \<open>\<^verbatim>\<open>MaxAttempts\<close> is a \<^verbatim>\<open>uint\<close>; the attempt counter stays below it, so it never wraps.\<close>

record 'w Config =
  MaxAttempts :: nat
  Backoff :: "'w Backoff option"
  IsRecoverable :: "(error option \<Rightarrow> bool) option"
  OnRetry :: "(nat \<Rightarrow> error option \<Rightarrow> duration \<Rightarrow> 'w \<Rightarrow> 'w) option"

text \<open>The calls the executor makes, in order, each with the world it leaves behind.
  \<open>OpCall n\<close> is the call of the closure \<^verbatim>\<open>operation(n)\<close>; the closures of \<^verbatim>\<open>Do\<close> and
  \<^verbatim>\<open>DoWithValue\<close> invoke the operation of the caller exactly once each time they are called.\<close>

datatype event =
    MinDelayCall
  | OpCall nat
  | OnRetryCall nat "error option" duration
  | SelectCall duration
  | DelayCall duration

type_synonym 'w trace = "(event \<times> 'w) list"

fun isOpCall :: "event \<Rightarrow> bool" where
  "isOpCall (OpCall n) = True"
| "isOpCall ev = False"

fun isOnRetryCall :: "event \<Rightarrow> bool" where
  "isOnRetryCall (OnRetryCall n e d) = True"
| "isOnRetryCall ev = False"

fun isSelectCall :: "event \<Rightarrow> bool" where
  "isSelectCall (SelectCall d) = True"
| "isSelectCall ev = False"

fun isAttemptEntry :: "event \<Rightarrow> bool" where
  "isAttemptEntry MinDelayCall = True"
| "isAttemptEntry (DelayCall d) = True"
| "isAttemptEntry ev = False"

definition opCalls :: "'w trace \<Rightarrow> nat" where
  "opCalls tr = length (filter (\<lambda>x. isOpCall (fst x)) tr)"

definition onRetryCalls :: "'w trace \<Rightarrow> nat" where
  "onRetryCalls tr = length (filter (\<lambda>x. isOnRetryCall (fst x)) tr)"

text \<open>A function returns, or panics on a nil interface or a nil function value.\<close>

datatype 'a outcome = Return 'a | NilPanic

definition validateConfig :: "'w Config \<Rightarrow> error option \<times> 'w Config" where
  "validateConfig config =
     (if Backoff config = None
      then (Some (fmt_Errorf ''backoff strategy is required'' []), config)
      else
        (let config = (if MaxAttempts config = 0 then config\<lparr>MaxAttempts := 1\<rparr> else config);
             config = (if IsRecoverable config = None
                       then config\<lparr>IsRecoverable := Some defaultRecoverable\<rparr> else config)
         in (None, config)))"

text \<open>\<^verbatim>\<open>if config.OnRetry != nil { config.OnRetry(attempt, err, delay) }\<close>\<close>

definition notifyRetry ::
  "'w Config \<Rightarrow> nat \<Rightarrow> error option \<Rightarrow> duration \<Rightarrow> 'w \<Rightarrow> 'w trace \<Rightarrow> 'w \<times> 'w trace" where
  "notifyRetry config attempt err delay w tr =
     (case OnRetry config of
        None \<Rightarrow> (w, tr)
      | Some onRetry \<Rightarrow>
          (let w' = onRetry attempt err delay w
           in (w', tr @ [(OnRetryCall attempt err delay, w')])))"

text \<open>The loop of \<^verbatim>\<open>doRetry\<close>. The closure \<^verbatim>\<open>operation\<close> acts on the world and on the variables
  \<open>'c\<close> it has captured from its caller.\<close>

function doRetry_loop ::
  "'w Context \<Rightarrow> 'w Config \<Rightarrow> (nat \<Rightarrow> 'w \<Rightarrow> 'c \<Rightarrow> (bool \<times> error option) \<times> 'w \<times> 'c) \<Rightarrow>
   nat \<Rightarrow> duration \<Rightarrow> 'w \<Rightarrow> 'c \<Rightarrow> 'w trace \<Rightarrow> error option outcome \<times> 'w \<times> 'c \<times> 'w trace"
where
  "doRetry_loop ctx config operation attempt delay w c tr =
     (if attempt < MaxAttempts config then
        (if Err ctx w \<noteq> None then (Return (Err ctx w), w, c, tr)
         else
           (case operation attempt w c of
              ((success, err), w1, c1) \<Rightarrow>
                (let tr1 = tr @ [(OpCall attempt, w1)] in
                 if success then (Return None, w1, c1, tr1)
                 else if errors_Is err (Some Canceled) \<or> errors_Is err (Some DeadlineExceeded) \<or>
                         Err ctx w1 \<noteq> None
                 then (Return err, w1, c1, tr1)
                 else
                   (case IsRecoverable config of
                      None \<Rightarrow> (NilPanic, w1, c1, tr1)
                    | Some isRecoverable \<Rightarrow>
                        (if \<not> isRecoverable err then (Return err, w1, c1, tr1)
                         else if MaxAttempts config \<le> attempt + 1
                         then (Return (Some ErrAllAttemptsFailed), w1, c1, tr1)
                         else
                           (case notifyRetry config (attempt + 1) err delay w1 tr1 of
                              (w2, tr2) \<Rightarrow>
                                (case selectDone ctx delay w2 of
                                   (done, w3) \<Rightarrow>
                                     (let tr3 = tr2 @ [(SelectCall delay, w3)] in
                                      if done then (Return (Err ctx w3), w3, c1, tr3)
                                      else
                                        (case Backoff config of
                                           None \<Rightarrow> (NilPanic, w3, c1, tr3)
                                         | Some b \<Rightarrow>
                                             (case Backoff_Delay b delay w3 of
                                                (delay', w4) \<Rightarrow>
                                                  doRetry_loop ctx config operation (attempt + 1)
                                                    delay' w4 c1
                                                    (tr3 @ [(DelayCall delay, w4)])))))))))))
      else (Return (Some ErrAllAttemptsFailed), w, c, tr))"
  by pat_completeness auto
termination
  by (relation "measure (\<lambda>(ctx, config, operation, attempt, delay, w, c, tr).
        MaxAttempts config - attempt)") auto

declare doRetry_loop.simps [simp del]

definition doRetry ::
  "'w Context \<Rightarrow> 'w Config \<Rightarrow> (nat \<Rightarrow> 'w \<Rightarrow> 'c \<Rightarrow> (bool \<times> error option) \<times> 'w \<times> 'c) \<Rightarrow>
   'w \<Rightarrow> 'c \<Rightarrow> 'w trace \<Rightarrow> error option outcome \<times> 'w \<times> 'c \<times> 'w trace" where
  "doRetry ctx config operation w c tr =
     (case Backoff config of
        None \<Rightarrow> (NilPanic, w, c, tr)
      | Some b \<Rightarrow>
          (case Backoff_MinDelay b w of
             (delay, w0) \<Rightarrow>
               doRetry_loop ctx config operation 0 delay w0 c (tr @ [(MinDelayCall, w0)])))"

text \<open>The closure that \<^verbatim>\<open>Do\<close> hands to \<^verbatim>\<open>doRetry\<close>; the variable it captures is \<^verbatim>\<open>lastErr\<close>.\<close>

definition Do_operation ::
  "('w \<Rightarrow> error option \<times> 'w) \<Rightarrow> nat \<Rightarrow> 'w \<Rightarrow> error option \<Rightarrow>
   (bool \<times> error option) \<times> 'w \<times> error option" where
  "Do_operation op attempt w lastErr =
     (case op w of
        (err, w') \<Rightarrow>
          if err = None then ((True, None), w', lastErr) else ((False, err), w', err))"

text \<open>\<^verbatim>\<open>Do\<close> returns its error, the world it leaves and the calls it made.\<close>

definition Do ::
  "'w Context \<Rightarrow> 'w Config \<Rightarrow> ('w \<Rightarrow> error option \<times> 'w) \<Rightarrow> 'w \<Rightarrow>
   error option outcome \<times> 'w \<times> 'w trace" where
  "Do ctx config op w =
     (case validateConfig config of
        (verr, config) \<Rightarrow>
          if verr \<noteq> None then (Return verr, w, [])
          else
            (case doRetry ctx config (Do_operation op) w None [] of
               (NilPanic, w', lastErr, tr) \<Rightarrow> (NilPanic, w', tr)
             | (Return err, w', lastErr, tr) \<Rightarrow>
                 if err \<noteq> None then
                   (if errors_Is err (Some ErrAllAttemptsFailed)
                    then (Return (Some (fmt_Errorf ''%w: %w''
                                    [W (Some ErrAllAttemptsFailed), W lastErr])), w', tr)
                    else (Return err, w', tr))
                 else (Return None, w', tr)))"

text \<open>The closure of \<^verbatim>\<open>DoWithValue\<close> captures \<^verbatim>\<open>result\<close> and \<^verbatim>\<open>lastErr\<close>; \<open>zero\<close> is the zero value
  of the type parameter.\<close>

definition DoWithValue_operation ::
  "('w \<Rightarrow> ('a \<times> error option) \<times> 'w) \<Rightarrow> nat \<Rightarrow> 'w \<Rightarrow> 'a \<times> error option \<Rightarrow>
   (bool \<times> error option) \<times> 'w \<times> 'a \<times> error option" where
  "DoWithValue_operation op attempt w vars =
     (case op w of
        ((v, err), w') \<Rightarrow>
          if err = None then ((True, None), w', (v, snd vars)) else ((False, err), w', (v, err)))"

definition DoWithValue ::
  "'a \<Rightarrow> 'w Context \<Rightarrow> 'w Config \<Rightarrow> ('w \<Rightarrow> ('a \<times> error option) \<times> 'w) \<Rightarrow> 'w \<Rightarrow>
   ('a \<times> error option) outcome \<times> 'w \<times> 'w trace" where
  "DoWithValue zero ctx config op w =
     (case validateConfig config of
        (verr, config) \<Rightarrow>
          if verr \<noteq> None then (Return (zero, verr), w, [])
          else
            (case doRetry ctx config (DoWithValue_operation op) w (zero, None) [] of
               (NilPanic, w', vars, tr) \<Rightarrow> (NilPanic, w', tr)
             | (Return err, w', (result, lastErr), tr) \<Rightarrow>
                 if err \<noteq> None then
                   (if errors_Is err (Some ErrAllAttemptsFailed)
                    then (Return (zero, Some (fmt_Errorf ''%w: %v''
                                    [W (Some ErrAllAttemptsFailed), V lastErr])), w', tr)
                    else (Return (zero, err), w', tr))
                 else (Return (result, None), w', tr)))"

text \<open>\<^verbatim>\<open>WithTimeout\<close>. The library function \<^verbatim>\<open>context.WithTimeout\<close> is a parameter: from a
  context and a timeout it makes the derived context and its \<^verbatim>\<open>cancel\<close> function.\<close>

definition WithTimeout ::
  "('w Context \<Rightarrow> duration \<Rightarrow> 'w \<Rightarrow> ('w Context \<times> ('w \<Rightarrow> 'w)) \<times> 'w) \<Rightarrow> 'a \<Rightarrow> 'w Context \<Rightarrow>
   'w Config \<Rightarrow> duration \<Rightarrow> ('w Context \<Rightarrow> 'w \<Rightarrow> ('a \<times> error option) \<times> 'w) \<Rightarrow> 'w \<Rightarrow>
   ('a \<times> error option) outcome \<times> 'w \<times> 'w trace" where
  "WithTimeout context_WithTimeout zero ctx config timeout op w =
     (if sint timeout \<le> 0
      then (Return (zero, Some (fmt_Errorf ''timeout must be greater than zero'' [])), w, [])
      else DoWithValue zero ctx config
             (\<lambda>w. case context_WithTimeout ctx timeout w of
                     ((timeoutCtx, cancel), w1) \<Rightarrow>
                       (case op timeoutCtx w1 of (r, w2) \<Rightarrow> (r, cancel w2)))
             w)"

text \<open>An operation run under a timeout of its own, in the words of the specification:
  every invocation derives a context limited by the timeout from the governing one, runs
  the operation with it, and releases it afterwards.\<close>

definition perAttemptTimeout ::
  "('w Context \<Rightarrow> duration \<Rightarrow> 'w \<Rightarrow> ('w Context \<times> ('w \<Rightarrow> 'w)) \<times> 'w) \<Rightarrow> 'w Context \<Rightarrow> duration \<Rightarrow>
   ('w Context \<Rightarrow> 'w \<Rightarrow> ('a \<times> error option) \<times> 'w) \<Rightarrow> 'w \<Rightarrow> ('a \<times> error option) \<times> 'w" where
  "perAttemptTimeout derive ctx timeout op w =
     (let derived = derive ctx timeout w;
          attemptCtx = fst (fst derived);
          release = snd (fst derived);
          ran = op attemptCtx (snd derived)
      in (fst ran, release (snd ran)))"

text \<open>The earlier copy of \<^verbatim>\<open>Do\<close> (errors.go, lines 232 to 297), which validates the
  configuration and runs the loop itself.\<close>

function Do_inline_loop ::
  "'w Context \<Rightarrow> 'w Config \<Rightarrow> 'w Backoff \<Rightarrow> (error option \<Rightarrow> bool) \<Rightarrow> ('w \<Rightarrow> error option \<times> 'w) \<Rightarrow>
   nat \<Rightarrow> duration \<Rightarrow> 'w \<Rightarrow> error option \<Rightarrow> 'w trace \<Rightarrow> error option \<times> 'w \<times> 'w trace"
where
  "Do_inline_loop ctx config b isRecoverable op attempt delay w lastErr tr =
     (if attempt < MaxAttempts config then
        (if Err ctx w \<noteq> None then (Err ctx w, w, tr)
         else
           (case op w of
              (err, w1) \<Rightarrow>
                (let tr1 = tr @ [(OpCall attempt, w1)] in
                 if err = None then (None, w1, tr1)
                 else if errors_Is err (Some Canceled) \<or> Err ctx w1 \<noteq> None then (err, w1, tr1)
                 else if \<not> isRecoverable err then (err, w1, tr1)
                 else if MaxAttempts config \<le> attempt + 1
                 then (Some (fmt_Errorf ''%w: %v'' [W (Some ErrAllAttemptsFailed), V err]), w1, tr1)
                 else
                   (case notifyRetry config (attempt + 1) err delay w1 tr1 of
                      (w2, tr2) \<Rightarrow>
                        (case selectDone ctx delay w2 of
                           (done, w3) \<Rightarrow>
                             (let tr3 = tr2 @ [(SelectCall delay, w3)] in
                              if done then (Err ctx w3, w3, tr3)
                              else
                                (case Backoff_Delay b delay w3 of
                                   (delay', w4) \<Rightarrow>
                                     Do_inline_loop ctx config b isRecoverable op (attempt + 1)
                                       delay' w4 err (tr3 @ [(DelayCall delay, w4)]))))))))
      else (Some (fmt_Errorf ''%w: %v'' [W (Some ErrAllAttemptsFailed), V lastErr]), w, tr))"
  by pat_completeness auto
termination
  by (relation "measure (\<lambda>(ctx, config, b, isRecoverable, op, attempt, delay, w, lastErr, tr).
        MaxAttempts config - attempt)") auto

declare Do_inline_loop.simps [simp del]

definition Do_inline ::
  "'w Context \<Rightarrow> 'w Config \<Rightarrow> ('w \<Rightarrow> error option \<times> 'w) \<Rightarrow> 'w \<Rightarrow> error option \<times> 'w \<times> 'w trace" where
  "Do_inline ctx config op w =
     (case Backoff config of
        None \<Rightarrow> (Some (fmt_Errorf ''backoff strategy is required'' []), w, [])
      | Some b \<Rightarrow>
          (let config = (if MaxAttempts config = 0 then config\<lparr>MaxAttempts := 1\<rparr> else config);
               isRecoverable = (case IsRecoverable config of
                                  None \<Rightarrow> defaultRecoverable_inline | Some p \<Rightarrow> p)
           in case Backoff_MinDelay b w of
                (delay, w0) \<Rightarrow>
                  Do_inline_loop ctx config b isRecoverable op 0 delay w0 None
                    [(MinDelayCall, w0)]))"

text \<open>A run that respects cancellation, read off its trace. For every call
  that leaves the context cancelled (\<^verbatim>\<open>ctx.Err()\<close> non-nil): no later call is an invocation of
  the operation; if the call is the one just before an attempt starts (\<^verbatim>\<open>MinDelay\<close> or
  \<^verbatim>\<open>Delay\<close>), the run makes no further call and returns the context's error; if the call is a
  wait, the run returns the context's error. \<open>returned e\<close> says that the run returned \<open>e\<close>.
  The context is observed at the calls of the executor, where the world changes.\<close>

fun cancellationRespected :: "'w Context \<Rightarrow> (error \<Rightarrow> bool) \<Rightarrow> 'w trace \<Rightarrow> bool" where
  "cancellationRespected ctx returned [] = True"
| "cancellationRespected ctx returned (x # post) =
     ((case Err ctx (snd x) of
         None \<Rightarrow> True
       | Some e \<Rightarrow>
           (\<forall>y\<in>set post. \<not> isOpCall (fst y)) \<and>
           (isAttemptEntry (fst x) \<longrightarrow> post = [] \<and> returned e) \<and>
           (isSelectCall (fst x) \<longrightarrow> returned e)) \<and>
      cancellationRespected ctx returned post)"

definition isCancellation :: "error \<Rightarrow> bool" where
  "isCancellation e =
     ((errors_Is (Some e) (Some Canceled) \<or> errors_Is (Some e) (Some DeadlineExceeded)) \<and>
      \<not> errors_Is (Some e) (Some ErrAllAttemptsFailed))"

section \<open>A test environment\<close>

text \<open>The world of the tests is the number of invocations of the operation so far, and
  whether the context has been cancelled. \<open>background\<close> is never cancelled; \<open>cancelled\<close> is
  cancelled from the start; \<open>cancelledWhileWaiting\<close> is cancelled during the first wait.
  \<open>mockB\<close> answers 10 and then always 20, as the mock of the test suite does.\<close>

type_synonym testWorld = "nat \<times> bool"

definition background :: "testWorld Context" where
  "background = \<lparr>Err = (\<lambda>w. None), selectDone = (\<lambda>d w. (False, w))\<rparr>"

definition cancelled :: "testWorld Context" where
  "cancelled = \<lparr>Err = (\<lambda>w. Some Canceled), selectDone = (\<lambda>d w. (True, w))\<rparr>"

definition cancelledWhileWaiting :: "testWorld Context" where
  "cancelledWhileWaiting =
     \<lparr>Err = (\<lambda>w. if snd w then Some Canceled else None),
      selectDone = (\<lambda>d w. (True, (fst w, True)))\<rparr>"

definition mockB :: "testWorld Backoff" where
  "mockB = \<lparr>Backoff_MinDelay = (\<lambda>w. (10, w)), Backoff_Delay = (\<lambda>d w. (20, w))\<rparr>"

definition testConfig :: "nat \<Rightarrow> testWorld Config" where
  "testConfig n = \<lparr>MaxAttempts = n, Backoff = Some mockB, IsRecoverable = None,
                   OnRetry = Some (\<lambda>attempt err delay w. w)\<rparr>"

definition persistentError :: error where
  "persistentError = ErrorString 1 ''persistent error''"

definition temporaryError :: error where
  "temporaryError = ErrorString 2 ''temporary error''"

definition alwaysFails :: "testWorld \<Rightarrow> error option \<times> testWorld" where
  "alwaysFails w = (Some persistentError, (Suc (fst w), snd w))"

definition alwaysFailsV :: "testWorld \<Rightarrow> (string \<times> error option) \<times> testWorld" where
  "alwaysFailsV w = (([], Some persistentError), (Suc (fst w), snd w))"

definition failsTwiceV :: "testWorld \<Rightarrow> (string \<times> error option) \<times> testWorld" where
  "failsTwiceV w =
     ((if fst w < 2 then ([], Some temporaryError) else (''eventual success'', None)),
      (Suc (fst w), snd w))"

text \<open>An error that wraps \<open>DeadlineExceeded\<close>, as a query that ran out of its own time
  returns it; a configuration whose predicate accepts every error; an operation that
  fails twice with that error and succeeds the third time.\<close>

definition queryTimedOut :: error where
  "queryTimedOut = Errorf ''query: %w'' [DeadlineExceeded] []"

definition retriesEverything :: "testWorld Config" where
  "retriesEverything = (testConfig 5)\<lparr>IsRecoverable := Some (\<lambda>err. True)\<rparr>"

definition timesOutTwiceV :: "testWorld \<Rightarrow> (string \<times> error option) \<times> testWorld" where
  "timesOutTwiceV w =
     ((if fst w < 2 then ([], Some queryTimedOut) else (''eventual success'', None)),
      (Suc (fst w), snd w))"

text \<open>The error of an exhausted inner \<^verbatim>\<open>Do\<close>, marked unrecoverable by the operation of an
  outer one.\<close>

definition innerExhausted :: error where
  "innerExhausted = Errorf ''%w: %w'' [ErrAllAttemptsFailed, persistentError] []"

definition failsUnrecoverably :: "testWorld \<Rightarrow> error option \<times> testWorld" where
  "failsUnrecoverably w = (NewUnrecoverableError (Some innerExhausted), (Suc (fst w), snd w))"

definition failsUnrecoverablyV :: "testWorld \<Rightarrow> (string \<times> error option) \<times> testWorld" where
  "failsUnrecoverablyV w =
     (([], NewUnrecoverableError (Some innerExhausted)), (Suc (fst w), snd w))"

definition noTimeouts ::
  "testWorld Context \<Rightarrow> duration \<Rightarrow> testWorld \<Rightarrow> (testWorld Context \<times> (testWorld \<Rightarrow> testWorld)) \<times> testWorld" where
  "noTimeouts ctx timeout w = ((ctx, (\<lambda>w. w)), w)"

definition succeedsV :: "testWorld Context \<Rightarrow> testWorld \<Rightarrow> (string \<times> error option) \<times> testWorld" where
  "succeedsV ctx w = ((''success'', None), (Suc (fst w), snd w))"

section \<open>Properties of the rounding to binary64\<close>

lemmas float_defs = round64_def nearest_def ulp_def exponent_def compute_bitlen pow2_def
  roundHalfEven_def Let_def


text \<open>\<open>exponent\<close> is the binary exponent, and \<open>nearest x\<close> is a multiple of \<open>ulp x\<close> at most
  half of \<open>ulp x\<close> away from \<open>x\<close>.\<close>

lemma exponent_bounds:
  assumes "x \<noteq> 0"
  shows "pow2 (exponent x) \<le> \<bar>x\<bar> \<and> \<bar>x\<bar> < pow2 (exponent x + 1)"
proof (cases "1 \<le> \<bar>x\<bar>")
  case True
  define n where "n = \<lfloor>\<bar>x\<bar>\<rfloor>"
  have n1: "1 \<le> n"
    using True by (simp add: n_def le_floor_iff)
  have b: "2 ^ nat (bitlen n - 1) \<le> n" "n < 2 ^ nat (bitlen n)"
    using bitlen_bounds [of n] n1 by simp_all
  have k: "1 \<le> bitlen n"
    using n1 by (simp add: bitlen_alt_def)
  have e: "exponent x = bitlen n - 1"
    using True by (simp add: exponent_def n_def)
  have lo: "real_of_int n \<le> \<bar>x\<bar>" and hi: "\<bar>x\<bar> < real_of_int n + 1"
    by (simp_all add: n_def)
  have "pow2 (exponent x) = real_of_int (2 ^ nat (bitlen n - 1))"
    using k by (simp add: e pow2_def)
  also have "\<dots> \<le> real_of_int n"
    using b(1) by (simp only: of_int_le_iff)
  finally have A: "pow2 (exponent x) \<le> \<bar>x\<bar>"
    using lo by simp
  have "n + 1 \<le> 2 ^ nat (bitlen n)"
    using b(2) by simp
  then have "real_of_int (n + 1) \<le> real_of_int (2 ^ nat (bitlen n))"
    by (simp only: of_int_le_iff)
  moreover have "pow2 (exponent x + 1) = real_of_int (2 ^ nat (bitlen n))"
    using k by (simp add: e pow2_def)
  ultimately have B: "\<bar>x\<bar> < pow2 (exponent x + 1)"
    using hi by simp
  from A B show ?thesis ..
next
  case False
  define y where "y = 1 / \<bar>x\<bar>"
  define m where "m = \<lceil>y\<rceil> - 1"
  have x0: "0 < \<bar>x\<bar>" and x1: "\<bar>x\<bar> < 1"
    using assms False by simp_all
  have y1: "1 < y"
    using x0 x1 by (simp add: y_def)
  have m1: "1 \<le> m"
    using y1 unfolding m_def by linarith
  have ym: "real_of_int m < y" "y \<le> real_of_int m + 1"
    unfolding m_def by linarith+
  have b: "2 ^ nat (bitlen m - 1) \<le> m" "m < 2 ^ nat (bitlen m)"
    using bitlen_bounds [of m] m1 by simp_all
  have k: "1 \<le> bitlen m"
    using m1 by (simp add: bitlen_alt_def)
  have e: "exponent x = - bitlen m"
    using False by (simp add: exponent_def m_def y_def)
  have xy: "\<bar>x\<bar> = 1 / y"
    using x0 by (simp add: y_def)
  have "m + 1 \<le> 2 ^ nat (bitlen m)"
    using b(2) by simp
  then have "real_of_int (m + 1) \<le> real_of_int (2 ^ nat (bitlen m))"
    by (simp only: of_int_le_iff)
  then have yle: "y \<le> 2 ^ nat (bitlen m)"
    using ym(2) by simp
  have "pow2 (exponent x) = 1 / 2 ^ nat (bitlen m)"
    using k by (simp add: e pow2_def)
  also have "\<dots> \<le> 1 / y"
    using yle y1 by (simp add: frac_le)
  finally have A: "pow2 (exponent x) \<le> \<bar>x\<bar>"
    by (simp add: xy)
  have "(2::real) ^ nat (bitlen m - 1) = real_of_int (2 ^ nat (bitlen m - 1))"
    by simp
  also have "\<dots> \<le> real_of_int m"
    using b(1) by (simp only: of_int_le_iff)
  finally have ygt: "2 ^ nat (bitlen m - 1) < y"
    using ym(1) by linarith
  have B: "\<bar>x\<bar> < pow2 (exponent x + 1)"
  proof (cases "bitlen m = 1")
    case True
    then show ?thesis
      using x1 by (simp add: e pow2_def)
  next
    case False
    with k have "pow2 (exponent x + 1) = 1 / 2 ^ nat (bitlen m - 1)"
      by (simp add: e pow2_def)
    moreover have "1 / y < 1 / 2 ^ nat (bitlen m - 1)"
      using ygt by (simp add: frac_less2)
    ultimately show ?thesis
      by (simp add: xy)
  qed
  from A B show ?thesis ..
qed

lemma pow2_pos: "0 < pow2 k"
  by (simp add: pow2_def)

lemma roundHalfEven_error: "\<bar>real_of_int (roundHalfEven y) - y\<bar> \<le> 1 / 2"
  unfolding roundHalfEven_def Let_def by (auto split: if_splits)

lemma nearest_error: "\<bar>nearest x - x\<bar> \<le> ulp x / 2"
proof (cases "x = 0")
  case True
  then show ?thesis
    using pow2_pos [of "max (exponent x) (- 1022) - 52"] by (simp add: nearest_def ulp_def)
next
  case False
  have u: "0 < ulp x"
    by (simp add: ulp_def pow2_pos)
  have "\<bar>nearest x - x\<bar> = \<bar>real_of_int (roundHalfEven (x / ulp x)) - x / ulp x\<bar> * ulp x"
    using False u by (simp add: nearest_def abs_mult [symmetric] field_simps)
  also have "\<dots> \<le> 1 / 2 * ulp x"
    using roundHalfEven_error [of "x / ulp x"] u by (intro mult_right_mono) simp_all
  finally show ?thesis
    by simp
qed

lemma round64_zero: "round64 0 = Finite 0"
  by (simp add: round64_def nearest_def)






section \<open>Properties of the backoff policy\<close>

lemma fmul_zero: "fmul (float64 d) (Finite 0) = Finite 0"
  by (simp add: float64_def round64_zero)

lemma toDuration_zero: "toDuration ovf (Finite 0) = 0"
  by (simp add: toDuration_def trunc_def)

lemma no_jitter_drawn: "fmul (fsub (Finite (1 / 4)) (round64 (1 / 2))) (Finite 0) = Finite 0"
proof -
  have "round64 (1 / 2) = Finite (1 / 2)" and "round64 (- (1 / 4)) = Finite (- (1 / 4))"
    by (simp_all add: float_defs)
  then show ?thesis
    by (simp add: round64_zero)
qed

text \<open>
  Claim C1. Whenever \<open>minDelay \<le> maxDelay\<close>, the delay returned by \<open>Delay\<close> lies between
  \<open>minDelay\<close> and \<open>maxDelay\<close>: for every previous duration (negative ones included), every
  factor, every jitter, every sequence of random draws, and whatever an out-of-range
  float conversion yields. The hypotheses \<open>0 \<le> minDelay\<close> and \<open>0 \<le> factor\<close> of the claim
  are not needed.
\<close>

theorem Delay_within_bounds:
  assumes "sint (minDelay b) \<le> sint (maxDelay b)"
  shows "sint (minDelay b) \<le> sint (fst (Delay ovf b previous)) \<and>
         sint (fst (Delay ovf b previous)) \<le> sint (maxDelay b)"
  using assms by (simp add: Delay_def Let_def split: prod.split)

theorem Delay_within_bounds_witness:
  "sint (minDelay samplePolicy) \<le> sint (maxDelay samplePolicy) \<and>
   sint (minDelay samplePolicy) \<le> sint (fst (Delay amd64 samplePolicy 200)) \<and>
   sint (fst (Delay amd64 samplePolicy 200)) \<le> sint (maxDelay samplePolicy) \<and>
   fst (Delay amd64 samplePolicy 200) = 450"
proof -
  have h: "sint (minDelay samplePolicy) \<le> sint (maxDelay samplePolicy)"
    by (simp add: samplePolicy_def New_def)
  have p: "fmul (float64 200) (Finite 2) = Finite 400"
    and q: "fmul (float64 400) (Finite (1 / 8)) = Finite 50"
    by (simp_all add: float64_def ns_def float_defs)
  have j: "fmul (fsub (Finite (3 / 4)) (round64 (1 / 2))) (Finite (1 / 2)) = Finite (1 / 8)"
  proof -
    have "round64 (1 / 2) = Finite (1 / 2)" and "round64 (1 / 4) = Finite (1 / 4)"
      and "round64 (1 / 8) = Finite (1 / 8)"
      by (simp_all add: float_defs)
    then show ?thesis
      by simp
  qed
  have t: "toDuration amd64 (Finite 400) = 400" "toDuration amd64 (Finite 50) = 50"
    by (simp_all add: toDuration_def trunc_def)
  have v: "fst (Delay amd64 samplePolicy 200) = 450"
    using p q j t by (simp add: Delay_def samplePolicy_def New_def Float64_def Let_def)
  show ?thesis
    using h v Delay_within_bounds [OF h, of amd64 200] by simp
qed







text \<open>Where the product does not fit \<^verbatim>\<open>int64\<close>, the delay is the clamp of whatever the
  conversion yields on the platform. For the greatest duration as \<open>previous\<close> and factor 2,
  that is \<open>minDelay\<close> on amd64 and \<open>maxDelay\<close> on arm64, and the formula of the claim gives
  \<open>maxDelay\<close>.\<close>

lemma Delay_out_of_range:
  "fst (Delay amd64 steadyPolicy 9223372036854775807) = 100 \<and>
   fst (Delay arm64 steadyPolicy 9223372036854775807) = 1000 \<and>
   nextDelay_spec 100 1000 2 9223372036854775807 = 1000"
proof -
  have p: "fmul (float64 9223372036854775807) (Finite 2) = Finite (2 ^ 64)"
    by (simp add: float64_def ns_def float_defs)
  have t: "toDuration amd64 (Finite (2 ^ 64)) = - (2 ^ 63)"
    "toDuration arm64 (Finite (2 ^ 64)) = 2 ^ 63 - 1"
    by (simp_all add: toDuration_def trunc_def amd64_def arm64_def)
  have a: "fst (Delay amd64 steadyPolicy 9223372036854775807) = 100"
    using p t(1)
    by (simp add: Delay_def steadyPolicy_def New_def Float64_def Let_def
        fmul_zero toDuration_zero no_jitter_drawn)
  have b: "fst (Delay arm64 steadyPolicy 9223372036854775807) = 1000"
    using p t(2)
    by (simp add: Delay_def steadyPolicy_def New_def Float64_def Let_def
        fmul_zero toDuration_zero no_jitter_drawn)
  have n: "nextDelay_spec 100 1000 2 9223372036854775807 = 1000"
    by (simp add: nextDelay_spec_def ns_def)
  from a b n show ?thesis
    by simp
qed

lemmas run_defs =
  Do_def DoWithValue_def Do_inline_def validateConfig_def doRetry_def Do_operation_def
  DoWithValue_operation_def notifyRetry_def errors_Is_def defaultRecoverable_def
  defaultRecoverable_inline_def IsUnrecoverableError_def NewUnrecoverableError_def
  fmt_Errorf_def opCalls_def onRetryCalls_def Let_def

lemmas test_defs =
  background_def cancelled_def cancelledWhileWaiting_def mockB_def testConfig_def
  persistentError_def temporaryError_def alwaysFails_def alwaysFailsV_def failsTwiceV_def
  innerExhausted_def failsUnrecoverably_def failsUnrecoverablyV_def noTimeouts_def
  succeedsV_def queryTimedOut_def retriesEverything_def timesOutTwiceV_def


section \<open>One iteration of the loop of doRetry\<close>

lemma loop_over:
  assumes "\<not> attempt < MaxAttempts config"
  shows "doRetry_loop ctx config operation attempt delay w c tr =
           (Return (Some ErrAllAttemptsFailed), w, c, tr)"
  using assms by (subst doRetry_loop.simps) simp

lemma loop_cancelled:
  assumes "attempt < MaxAttempts config" and "Err ctx w = Some e"
  shows "doRetry_loop ctx config operation attempt delay w c tr = (Return (Some e), w, c, tr)"
  using assms by (subst doRetry_loop.simps) simp

lemma loop_success:
  assumes "attempt < MaxAttempts config" and "Err ctx w = None"
    and "operation attempt w c = ((True, err), w1, c1)"
  shows "doRetry_loop ctx config operation attempt delay w c tr =
           (Return None, w1, c1, tr @ [(OpCall attempt, w1)])"
  using assms by (subst doRetry_loop.simps) simp

lemma loop_interrupted:
  assumes "attempt < MaxAttempts config" and "Err ctx w = None"
    and "operation attempt w c = ((False, err), w1, c1)"
    and "errors_Is err (Some Canceled) \<or> errors_Is err (Some DeadlineExceeded) \<or>
         Err ctx w1 \<noteq> None"
  shows "doRetry_loop ctx config operation attempt delay w c tr =
           (Return err, w1, c1, tr @ [(OpCall attempt, w1)])"
  using assms by (subst doRetry_loop.simps) auto

lemma loop_no_predicate:
  assumes "attempt < MaxAttempts config" and "Err ctx w = None"
    and "operation attempt w c = ((False, err), w1, c1)"
    and "\<not> errors_Is err (Some Canceled)" and "\<not> errors_Is err (Some DeadlineExceeded)"
    and "Err ctx w1 = None" and "IsRecoverable config = None"
  shows "doRetry_loop ctx config operation attempt delay w c tr =
           (NilPanic, w1, c1, tr @ [(OpCall attempt, w1)])"
  using assms by (subst doRetry_loop.simps) simp

lemma loop_not_recoverable:
  assumes "attempt < MaxAttempts config" and "Err ctx w = None"
    and "operation attempt w c = ((False, err), w1, c1)"
    and "\<not> errors_Is err (Some Canceled)" and "\<not> errors_Is err (Some DeadlineExceeded)"
    and "Err ctx w1 = None" and "IsRecoverable config = Some p" and "\<not> p err"
  shows "doRetry_loop ctx config operation attempt delay w c tr =
           (Return err, w1, c1, tr @ [(OpCall attempt, w1)])"
  using assms by (subst doRetry_loop.simps) simp

lemma loop_exhausted:
  assumes "attempt < MaxAttempts config" and "Err ctx w = None"
    and "operation attempt w c = ((False, err), w1, c1)"
    and "\<not> errors_Is err (Some Canceled)" and "\<not> errors_Is err (Some DeadlineExceeded)"
    and "Err ctx w1 = None" and "IsRecoverable config = Some p" and "p err"
    and "MaxAttempts config \<le> attempt + 1"
  shows "doRetry_loop ctx config operation attempt delay w c tr =
           (Return (Some ErrAllAttemptsFailed), w1, c1, tr @ [(OpCall attempt, w1)])"
  using assms by (subst doRetry_loop.simps) simp

lemma loop_wait_cancelled:
  assumes "attempt < MaxAttempts config" and "Err ctx w = None"
    and "operation attempt w c = ((False, err), w1, c1)"
    and "\<not> errors_Is err (Some Canceled)" and "\<not> errors_Is err (Some DeadlineExceeded)"
    and "Err ctx w1 = None" and "IsRecoverable config = Some p" and "p err"
    and "\<not> MaxAttempts config \<le> attempt + 1"
    and "notifyRetry config (attempt + 1) err delay w1 (tr @ [(OpCall attempt, w1)]) = (w2, tr2)"
    and "selectDone ctx delay w2 = (True, w3)"
  shows "doRetry_loop ctx config operation attempt delay w c tr =
           (Return (Err ctx w3), w3, c1, tr2 @ [(SelectCall delay, w3)])"
  using assms by (subst doRetry_loop.simps) simp

lemma loop_no_backoff:
  assumes "attempt < MaxAttempts config" and "Err ctx w = None"
    and "operation attempt w c = ((False, err), w1, c1)"
    and "\<not> errors_Is err (Some Canceled)" and "\<not> errors_Is err (Some DeadlineExceeded)"
    and "Err ctx w1 = None" and "IsRecoverable config = Some p" and "p err"
    and "\<not> MaxAttempts config \<le> attempt + 1"
    and "notifyRetry config (attempt + 1) err delay w1 (tr @ [(OpCall attempt, w1)]) = (w2, tr2)"
    and "selectDone ctx delay w2 = (False, w3)" and "Backoff config = None"
  shows "doRetry_loop ctx config operation attempt delay w c tr =
           (NilPanic, w3, c1, tr2 @ [(SelectCall delay, w3)])"
  using assms by (subst doRetry_loop.simps) simp

lemma loop_retry:
  assumes "attempt < MaxAttempts config" and "Err ctx w = None"
    and "operation attempt w c = ((False, err), w1, c1)"
    and "\<not> errors_Is err (Some Canceled)" and "\<not> errors_Is err (Some DeadlineExceeded)"
    and "Err ctx w1 = None" and "IsRecoverable config = Some p" and "p err"
    and "\<not> MaxAttempts config \<le> attempt + 1"
    and "notifyRetry config (attempt + 1) err delay w1 (tr @ [(OpCall attempt, w1)]) = (w2, tr2)"
    and "selectDone ctx delay w2 = (False, w3)" and "Backoff config = Some b"
    and "Backoff_Delay b delay w3 = (delay', w4)"
  shows "doRetry_loop ctx config operation attempt delay w c tr =
           doRetry_loop ctx config operation (attempt + 1) delay' w4 c1
             (tr2 @ [(SelectCall delay, w3), (DelayCall delay, w4)])"
  using assms by (subst doRetry_loop.simps) simp

section \<open>One iteration of the loop written inside Do\<close>

lemma inline_over:
  assumes "\<not> attempt < MaxAttempts config"
  shows "Do_inline_loop ctx config b p op attempt delay w lastErr tr =
           (Some (fmt_Errorf ''%w: %v'' [W (Some ErrAllAttemptsFailed), V lastErr]), w, tr)"
  using assms by (subst Do_inline_loop.simps) simp

lemma inline_cancelled:
  assumes "attempt < MaxAttempts config" and "Err ctx w = Some e"
  shows "Do_inline_loop ctx config b p op attempt delay w lastErr tr = (Some e, w, tr)"
  using assms by (subst Do_inline_loop.simps) simp

lemma inline_success:
  assumes "attempt < MaxAttempts config" and "Err ctx w = None" and "op w = (None, w1)"
  shows "Do_inline_loop ctx config b p op attempt delay w lastErr tr =
           (None, w1, tr @ [(OpCall attempt, w1)])"
  using assms by (subst Do_inline_loop.simps) simp

lemma inline_interrupted:
  assumes "attempt < MaxAttempts config" and "Err ctx w = None" and "op w = (Some e, w1)"
    and "errors_Is (Some e) (Some Canceled) \<or> Err ctx w1 \<noteq> None"
  shows "Do_inline_loop ctx config b p op attempt delay w lastErr tr =
           (Some e, w1, tr @ [(OpCall attempt, w1)])"
  using assms by (subst Do_inline_loop.simps) auto

lemma inline_not_recoverable:
  assumes "attempt < MaxAttempts config" and "Err ctx w = None" and "op w = (Some e, w1)"
    and "\<not> errors_Is (Some e) (Some Canceled)" and "Err ctx w1 = None" and "\<not> p (Some e)"
  shows "Do_inline_loop ctx config b p op attempt delay w lastErr tr =
           (Some e, w1, tr @ [(OpCall attempt, w1)])"
  using assms by (subst Do_inline_loop.simps) simp

lemma inline_exhausted:
  assumes "attempt < MaxAttempts config" and "Err ctx w = None" and "op w = (Some e, w1)"
    and "\<not> errors_Is (Some e) (Some Canceled)" and "Err ctx w1 = None" and "p (Some e)"
    and "MaxAttempts config \<le> attempt + 1"
  shows "Do_inline_loop ctx config b p op attempt delay w lastErr tr =
           (Some (fmt_Errorf ''%w: %v'' [W (Some ErrAllAttemptsFailed), V (Some e)]), w1,
            tr @ [(OpCall attempt, w1)])"
  using assms by (subst Do_inline_loop.simps) simp

lemma inline_wait_cancelled:
  assumes "attempt < MaxAttempts config" and "Err ctx w = None" and "op w = (Some e, w1)"
    and "\<not> errors_Is (Some e) (Some Canceled)" and "Err ctx w1 = None" and "p (Some e)"
    and "\<not> MaxAttempts config \<le> attempt + 1"
    and "notifyRetry config (attempt + 1) (Some e) delay w1 (tr @ [(OpCall attempt, w1)]) =
           (w2, tr2)"
    and "selectDone ctx delay w2 = (True, w3)"
  shows "Do_inline_loop ctx config b p op attempt delay w lastErr tr =
           (Err ctx w3, w3, tr2 @ [(SelectCall delay, w3)])"
  using assms by (subst Do_inline_loop.simps) simp

lemma inline_retry:
  assumes "attempt < MaxAttempts config" and "Err ctx w = None" and "op w = (Some e, w1)"
    and "\<not> errors_Is (Some e) (Some Canceled)" and "Err ctx w1 = None" and "p (Some e)"
    and "\<not> MaxAttempts config \<le> attempt + 1"
    and "notifyRetry config (attempt + 1) (Some e) delay w1 (tr @ [(OpCall attempt, w1)]) =
           (w2, tr2)"
    and "selectDone ctx delay w2 = (False, w3)"
    and "Backoff_Delay b delay w3 = (delay', w4)"
  shows "Do_inline_loop ctx config b p op attempt delay w lastErr tr =
           Do_inline_loop ctx config b p op (attempt + 1) delay' w4 (Some e)
             (tr2 @ [(SelectCall delay, w3), (DelayCall delay, w4)])"
  using assms by (subst Do_inline_loop.simps) simp

section \<open>From the entry points to the loops\<close>

lemma validateConfig_ok:
  assumes "Backoff config = Some b"
  shows "fst (validateConfig config) = None"
    and "Backoff (snd (validateConfig config)) = Some b"
    and "MaxAttempts (snd (validateConfig config)) =
           (if MaxAttempts config = 0 then 1 else MaxAttempts config)"
    and "IsRecoverable (snd (validateConfig config)) =
           Some (case IsRecoverable config of None \<Rightarrow> defaultRecoverable | Some p \<Rightarrow> p)"
    and "OnRetry (snd (validateConfig config)) = OnRetry config"
  using assms by (auto simp: validateConfig_def Let_def split: option.splits)

lemma Do_unfold:
  assumes "Backoff config = Some b" and "Backoff_MinDelay b w = (d0, w0)"
    and "doRetry_loop ctx (snd (validateConfig config)) (Do_operation op) 0 d0 w0 None
           [(MinDelayCall, w0)] = (r, w', lastErr, tr)"
  shows "Do ctx config op w =
           (case r of
              NilPanic \<Rightarrow> (NilPanic, w', tr)
            | Return err \<Rightarrow>
                if err \<noteq> None then
                  (if errors_Is err (Some ErrAllAttemptsFailed)
                   then (Return (Some (fmt_Errorf ''%w: %w''
                                   [W (Some ErrAllAttemptsFailed), W lastErr])), w', tr)
                   else (Return err, w', tr))
                else (Return None, w', tr))"
proof -
  obtain verr cfg where v: "validateConfig config = (verr, cfg)"
    by (cases "validateConfig config")
  with validateConfig_ok [OF assms(1)] have "verr = None" and "Backoff cfg = Some b"
    by simp_all
  with v assms(2,3) show ?thesis
    by (simp add: Do_def doRetry_def split: outcome.split)
qed

lemma DoWithValue_unfold:
  assumes "Backoff config = Some b" and "Backoff_MinDelay b w = (d0, w0)"
    and "doRetry_loop ctx (snd (validateConfig config)) (DoWithValue_operation op) 0 d0 w0
           (zero, None) [(MinDelayCall, w0)] = (r, w', (result, lastErr), tr)"
  shows "DoWithValue zero ctx config op w =
           (case r of
              NilPanic \<Rightarrow> (NilPanic, w', tr)
            | Return err \<Rightarrow>
                if err \<noteq> None then
                  (if errors_Is err (Some ErrAllAttemptsFailed)
                   then (Return (zero, Some (fmt_Errorf ''%w: %v''
                                   [W (Some ErrAllAttemptsFailed), V lastErr])), w', tr)
                   else (Return (zero, err), w', tr))
                else (Return (result, None), w', tr))"
proof -
  obtain verr cfg where v: "validateConfig config = (verr, cfg)"
    by (cases "validateConfig config")
  with validateConfig_ok [OF assms(1)] have "verr = None" and "Backoff cfg = Some b"
    by simp_all
  with v assms(2,3) show ?thesis
    by (simp add: DoWithValue_def doRetry_def split: outcome.split)
qed

lemma Do_inline_unfold:
  assumes "Backoff config = Some b" and "Backoff_MinDelay b w = (d0, w0)"
  shows "Do_inline ctx config op w =
           Do_inline_loop ctx (if MaxAttempts config = 0 then config\<lparr>MaxAttempts := 1\<rparr> else config)
             b (case IsRecoverable config of None \<Rightarrow> defaultRecoverable_inline | Some p \<Rightarrow> p)
             op 0 d0 w0 None [(MinDelayCall, w0)]"
  using assms by (simp add: Do_inline_def Let_def)

section \<open>Properties of the error classification\<close>

lemma chainIs_chain: "chainIs e t \<longleftrightarrow> t \<in> set (chain e)"
  by (induction e rule: chain.induct) (auto split: option.splits)

lemma chainAsUnrecoverable_chain:
  "chainAsUnrecoverable e \<longleftrightarrow> (\<exists>x\<in>set (chain e). markedUnrecoverable x)"
  by (induction e rule: chain.induct) (auto split: option.splits)

lemma validateConfig_installs_default:
  "Backoff config \<noteq> None \<Longrightarrow> IsRecoverable config = None \<Longrightarrow>
   IsRecoverable (snd (validateConfig config)) = Some defaultRecoverable"
  by (simp add: validateConfig_def Let_def)

text \<open>
  Claim C3, as stated, does not hold of the default classification of the executor whose
  loop is written inside \<open>Do\<close>: that one retries an error that is \<open>DeadlineExceeded\<close>.
\<close>

theorem defaultRecoverable_inline_retries_deadline:
  "defaultRecoverable_inline (Some DeadlineExceeded) \<and>
   errors_Is (Some DeadlineExceeded) (Some DeadlineExceeded)"
  by (simp add: defaultRecoverable_inline_def errors_Is_def IsUnrecoverableError_def)

text \<open>
  Claim C3, amended. The default classification that \<open>validateConfig\<close> installs when no
  predicate is supplied declares an error recoverable exactly when it is non-nil, neither
  \<open>Canceled\<close> nor \<open>DeadlineExceeded\<close> occurs in its chain, and no error of its chain is marked
  unrecoverable. The default classification of the executor whose loop is written inside
  \<open>Do\<close> is the same without the test for \<open>DeadlineExceeded\<close>.
\<close>

theorem defaultRecoverable_iff:
  "(defaultRecoverable err \<longleftrightarrow>
      (\<exists>e. err = Some e \<and> Canceled \<notin> set (chain e) \<and> DeadlineExceeded \<notin> set (chain e) \<and>
           (\<forall>x\<in>set (chain e). \<not> markedUnrecoverable x))) \<and>
   (defaultRecoverable_inline err \<longleftrightarrow>
      (\<exists>e. err = Some e \<and> Canceled \<notin> set (chain e) \<and>
           (\<forall>x\<in>set (chain e). \<not> markedUnrecoverable x))) \<and>
   (Backoff config \<noteq> None \<and> IsRecoverable config = None \<longrightarrow>
      IsRecoverable (snd (validateConfig config)) = Some defaultRecoverable)"
  by (cases err)
    (simp_all add: defaultRecoverable_def defaultRecoverable_inline_def errors_Is_def
      IsUnrecoverableError_def chainIs_chain chainAsUnrecoverable_chain
      validateConfig_installs_default)

theorem defaultRecoverable_iff_witness:
  "defaultRecoverable (Some persistentError) \<and>
   \<not> defaultRecoverable (Some (Errorf ''query: %w'' [DeadlineExceeded] [])) \<and>
   \<not> defaultRecoverable (Some (Errorf ''query: %w'' [UnrecoverableError (Some persistentError)] [])) \<and>
   defaultRecoverable_inline (Some (Errorf ''query: %w'' [DeadlineExceeded] [])) \<and>
   IsRecoverable (snd (validateConfig (testConfig 3))) = Some defaultRecoverable"
  using defaultRecoverable_iff [of "Some persistentError" "testConfig 3"]
    defaultRecoverable_iff [of "Some (Errorf ''query: %w'' [DeadlineExceeded] [])" "testConfig 3"]
    defaultRecoverable_iff
      [of "Some (Errorf ''query: %w'' [UnrecoverableError (Some persistentError)] [])"
        "testConfig 3"]
  by (simp add: persistentError_def testConfig_def)

section \<open>Properties of the executor: configuration\<close>

text \<open>
  Claim C8. With a configuration whose \<open>Backoff\<close> is nil, \<open>Do\<close> and \<open>DoWithValue\<close> (and the
  earlier copy of \<open>Do\<close>) return the error \<^verbatim>\<open>backoff strategy is required\<close>, leave the world
  as it was and make no call at all: the operation is not invoked. That error is neither
  a cancellation, nor the exhaustion sentinel, nor marked unrecoverable.
\<close>

theorem nil_Backoff_is_misconfiguration:
  assumes "Backoff config = None"
  shows "Do ctx config op w =
           (Return (Some (fmt_Errorf ''backoff strategy is required'' [])), w, []) \<and>
         DoWithValue zero ctx config opv w =
           (Return (zero, Some (fmt_Errorf ''backoff strategy is required'' [])), w, []) \<and>
         Do_inline ctx config op w =
           (Some (fmt_Errorf ''backoff strategy is required'' []), w, []) \<and>
         \<not> errors_Is (Some (fmt_Errorf ''backoff strategy is required'' [])) (Some Canceled) \<and>
         \<not> errors_Is (Some (fmt_Errorf ''backoff strategy is required'' []))
             (Some DeadlineExceeded) \<and>
         \<not> errors_Is (Some (fmt_Errorf ''backoff strategy is required'' []))
             (Some ErrAllAttemptsFailed) \<and>
         \<not> IsUnrecoverableError (Some (fmt_Errorf ''backoff strategy is required'' []))"
  using assms
  by (simp add: Do_def DoWithValue_def Do_inline_def validateConfig_def errors_Is_def
      IsUnrecoverableError_def fmt_Errorf_def)

theorem nil_Backoff_is_misconfiguration_witness:
  "Backoff ((testConfig 3)\<lparr>Backoff := None\<rparr>) = None \<and>
   Do background ((testConfig 3)\<lparr>Backoff := None\<rparr>) alwaysFails (0, False) =
     (Return (Some (fmt_Errorf ''backoff strategy is required'' [])), (0, False), []) \<and>
   DoWithValue [] background ((testConfig 3)\<lparr>Backoff := None\<rparr>) alwaysFailsV (0, False) =
     (Return ([], Some (fmt_Errorf ''backoff strategy is required'' [])), (0, False), []) \<and>
   Do_inline background ((testConfig 3)\<lparr>Backoff := None\<rparr>) alwaysFails (0, False) =
     (Some (fmt_Errorf ''backoff strategy is required'' []), (0, False), [])"
proof -
  have h: "Backoff ((testConfig 3)\<lparr>Backoff := None\<rparr>) = None"
    by simp
  show ?thesis
    using h nil_Backoff_is_misconfiguration
      [OF h, of background alwaysFails "(0, False)" "[]" alwaysFailsV]
    by simp
qed

text \<open>
  Claim C10. With a timeout that is zero or negative, \<open>WithTimeout\<close> returns the zero value
  and the non-nil error \<^verbatim>\<open>timeout must be greater than zero\<close>, leaves the world as it was
  and makes no call: neither the operation nor the backoff policy is used. With a positive
  timeout it is \<open>DoWithValue\<close> run on the operation put under a timeout of its own for
  every attempt.
\<close>

theorem WithTimeout_cases:
  "(sint timeout \<le> 0 \<longrightarrow>
      WithTimeout derive zero ctx config timeout op w =
        (Return (zero, Some (fmt_Errorf ''timeout must be greater than zero'' [])), w, [])) \<and>
   (0 < sint timeout \<longrightarrow>
      WithTimeout derive zero ctx config timeout op w =
        DoWithValue zero ctx config (perAttemptTimeout derive ctx timeout op) w)"
proof -
  have "(\<lambda>w. case derive ctx timeout w of
               ((timeoutCtx, cancel), w1) \<Rightarrow>
                 (case op timeoutCtx w1 of (r, w2) \<Rightarrow> (r, cancel w2))) =
        perAttemptTimeout derive ctx timeout op"
    by (rule ext) (simp add: perAttemptTimeout_def Let_def split: prod.splits)
  then show ?thesis
    by (simp add: WithTimeout_def)
qed

theorem WithTimeout_cases_witness:
  "sint (0 :: duration) \<le> 0 \<and> 0 < sint (100 :: duration) \<and>
   WithTimeout noTimeouts [] background (testConfig 3) 0 succeedsV (0, False) =
     (Return ([], Some (fmt_Errorf ''timeout must be greater than zero'' [])), (0, False), []) \<and>
   WithTimeout noTimeouts [] background (testConfig 3) 100 succeedsV (0, False) =
     DoWithValue [] background (testConfig 3)
       (perAttemptTimeout noTimeouts background 100 succeedsV) (0, False) \<and>
   fst (DoWithValue [] background (testConfig 3)
          (perAttemptTimeout noTimeouts background 100 succeedsV) (0, False)) =
     Return (''success'', None)"
proof -
  have v: "fst (DoWithValue [] background (testConfig 3)
                 (perAttemptTimeout noTimeouts background 100 succeedsV) (0, False)) =
           Return (''success'', None)"
    by (simp add: run_defs test_defs perAttemptTimeout_def doRetry_loop.simps)
  show ?thesis
    using v WithTimeout_cases [of 0 noTimeouts "[]" background "testConfig 3" succeedsV "(0, False)"]
      WithTimeout_cases [of 100 noTimeouts "[]" background "testConfig 3" succeedsV "(0, False)"]
    by simp
qed

text \<open>With at most one attempt allowed, the operation is invoked once if the context is
  not cancelled when the attempt starts, and not at all if it is.\<close>

lemma loop_single_attempt:
  assumes "MaxAttempts config = attempt + 1"
  shows "snd (snd (snd (doRetry_loop ctx config operation attempt delay w c tr))) =
           (if Err ctx w = None
            then tr @ [(OpCall attempt, fst (snd (operation attempt w c)))] else tr)"
proof (cases "Err ctx w")
  case (Some e)
  with assms show ?thesis
    by (simp add: loop_cancelled)
next
  case None
  have lt: "attempt < MaxAttempts config"
    using assms by simp
  obtain success err w1 c1 where op: "operation attempt w c = ((success, err), w1, c1)"
    by (cases "operation attempt w c") auto
  let ?L = "doRetry_loop ctx config operation attempt delay w c tr"
  show ?thesis
  proof (cases "success \<or> errors_Is err (Some Canceled) \<or> errors_Is err (Some DeadlineExceeded) \<or>
                Err ctx w1 \<noteq> None")
    case True
    then have "snd (snd (snd ?L)) = tr @ [(OpCall attempt, w1)]"
      using op
        loop_success [where operation = operation and attempt = attempt and w = w and c = c,
          OF lt None, of err w1 c1 delay tr]
        loop_interrupted [where operation = operation and attempt = attempt and w = w and c = c,
          OF lt None, of err w1 c1 delay tr]
      by (cases success) auto
    with None op show ?thesis by simp
  next
    case False
    then have op': "operation attempt w c = ((False, err), w1, c1)"
      and nc: "\<not> errors_Is err (Some Canceled)"
      and nd: "\<not> errors_Is err (Some DeadlineExceeded)" and e1: "Err ctx w1 = None"
      using op by simp_all
    have "snd (snd (snd ?L)) = tr @ [(OpCall attempt, w1)]"
    proof (cases "IsRecoverable config")
      case None
      then show ?thesis
        using loop_no_predicate
          [where operation = operation and attempt = attempt and w = w and c = c,
            OF lt \<open>Err ctx w = None\<close> op' nc nd e1]
        by simp
    next
      case (Some p)
      then show ?thesis
        using assms
          loop_not_recoverable
            [where operation = operation and attempt = attempt and w = w and c = c,
              OF lt \<open>Err ctx w = None\<close> op' nc nd e1 Some]
          loop_exhausted
            [where operation = operation and attempt = attempt and w = w and c = c,
              OF lt \<open>Err ctx w = None\<close> op' nc nd e1 Some]
        by (cases "p err") simp_all
    qed
    with None op show ?thesis by simp
  qed
qed

lemma inline_single_attempt:
  assumes "MaxAttempts config = attempt + 1"
  shows "snd (snd (Do_inline_loop ctx config b p op attempt delay w lastErr tr)) =
           (if Err ctx w = None then tr @ [(OpCall attempt, snd (op w))] else tr)"
proof (cases "Err ctx w")
  case (Some e)
  with assms show ?thesis
    by (simp add: inline_cancelled)
next
  case None
  have lt: "attempt < MaxAttempts config"
    using assms by simp
  obtain err w1 where op: "op w = (err, w1)"
    by (cases "op w") auto
  let ?L = "Do_inline_loop ctx config b p op attempt delay w lastErr tr"
  have "snd (snd ?L) = tr @ [(OpCall attempt, w1)]"
  proof (cases err)
    case None
    with op show ?thesis
      using inline_success [where op = op and w = w, OF lt \<open>Err ctx w = None\<close>, of w1] by simp
  next
    case (Some e)
    with op have op': "op w = (Some e, w1)" by simp
    show ?thesis
    proof (cases "errors_Is (Some e) (Some Canceled) \<or> Err ctx w1 \<noteq> None")
      case True
      then show ?thesis
        using inline_interrupted [where op = op and w = w, OF lt \<open>Err ctx w = None\<close> op'] by simp
    next
      case False
      then show ?thesis
        using assms inline_not_recoverable [where op = op and w = w and p = p, OF lt \<open>Err ctx w = None\<close> op']
          inline_exhausted [where op = op and w = w and p = p, OF lt \<open>Err ctx w = None\<close> op']
        by (cases "p (Some e)") simp_all
    qed
  qed
  with None op show ?thesis by simp
qed

lemma Do_single_attempt:
  assumes "Backoff config = Some b" and "MaxAttempts config \<le> 1"
  shows "opCalls (snd (snd (Do ctx config op w))) =
           (if Err ctx (snd (Backoff_MinDelay b w)) = None then 1 else 0)"
proof -
  obtain d0 w0 where md: "Backoff_MinDelay b w = (d0, w0)"
    by (cases "Backoff_MinDelay b w") auto
  let ?L = "doRetry_loop ctx (snd (validateConfig config)) (Do_operation op) 0 d0 w0 None
              [(MinDelayCall, w0)]"
  obtain r w' lastErr tr where run: "?L = (r, w', lastErr, tr)"
    by (cases ?L) auto
  have "MaxAttempts (snd (validateConfig config)) = 0 + 1"
    using validateConfig_ok(3) [OF assms(1)] assms(2) by simp
  from loop_single_attempt [OF this, of ctx "Do_operation op" d0 w0 None "[(MinDelayCall, w0)]"] run
  have "opCalls tr = (if Err ctx w0 = None then 1 else 0)"
    by (simp add: opCalls_def)
  moreover have "snd (snd (Do ctx config op w)) = tr"
    by (simp add: Do_unfold [OF assms(1) md run] split: outcome.split)
  ultimately show ?thesis
    using md by simp
qed

lemma DoWithValue_single_attempt:
  assumes "Backoff config = Some b" and "MaxAttempts config \<le> 1"
  shows "opCalls (snd (snd (DoWithValue zero ctx config opv w))) =
           (if Err ctx (snd (Backoff_MinDelay b w)) = None then 1 else 0)"
proof -
  obtain d0 w0 where md: "Backoff_MinDelay b w = (d0, w0)"
    by (cases "Backoff_MinDelay b w") auto
  let ?L = "doRetry_loop ctx (snd (validateConfig config)) (DoWithValue_operation opv) 0 d0 w0
              (zero, None) [(MinDelayCall, w0)]"
  obtain r w' result lastErr tr where run: "?L = (r, w', (result, lastErr), tr)"
    by (cases ?L) auto
  have "MaxAttempts (snd (validateConfig config)) = 0 + 1"
    using validateConfig_ok(3) [OF assms(1)] assms(2) by simp
  from loop_single_attempt
    [OF this, of ctx "DoWithValue_operation opv" d0 w0 "(zero, None)" "[(MinDelayCall, w0)]"] run
  have "opCalls tr = (if Err ctx w0 = None then 1 else 0)"
    by (simp add: opCalls_def)
  moreover have "snd (snd (DoWithValue zero ctx config opv w)) = tr"
    by (simp add: DoWithValue_unfold [OF assms(1) md run] split: outcome.split)
  ultimately show ?thesis
    using md by simp
qed

lemma Do_inline_single_attempt:
  assumes "Backoff config = Some b" and "MaxAttempts config \<le> 1"
  shows "opCalls (snd (snd (Do_inline ctx config op w))) =
           (if Err ctx (snd (Backoff_MinDelay b w)) = None then 1 else 0)"
proof -
  obtain d0 w0 where md: "Backoff_MinDelay b w = (d0, w0)"
    by (cases "Backoff_MinDelay b w") auto
  let ?cfg = "if MaxAttempts config = 0 then config\<lparr>MaxAttempts := 1\<rparr> else config"
  have "MaxAttempts ?cfg = 0 + 1"
    using assms(2) by simp
  from inline_single_attempt [OF this] show ?thesis
    using md by (simp add: Do_inline_unfold [OF assms(1) md] opCalls_def)
qed

text \<open>
  Claim C9, as stated, fails for a context that is already cancelled: with
  \<open>MaxAttempts = 0\<close> the operation is not invoked at all.
\<close>

theorem zero_MaxAttempts_cancelled_never_invokes:
  "Do cancelled (testConfig 0) alwaysFails (0, False) =
     (Return (Some Canceled), (0, False), [(MinDelayCall, (0, False))]) \<and>
   opCalls (snd (snd (Do cancelled (testConfig 0) alwaysFails (0, False)))) = 0"
  by (simp add: run_defs test_defs doRetry_loop.simps)

text \<open>
  Claim C9, amended. For every context, backoff policy, operation, predicate and callback,
  \<open>Do\<close> and \<open>DoWithValue\<close> (and the earlier copy of \<open>Do\<close>) run with \<open>MaxAttempts = 0\<close> give
  the same result, the same final world and the same calls as with \<open>MaxAttempts = 1\<close>.
  When a backoff policy is set, the operation is then invoked exactly once if the context
  is not cancelled when the first attempt starts, and not at all if it is cancelled.
\<close>

theorem zero_MaxAttempts_as_one:
  "Do ctx (config\<lparr>MaxAttempts := 0\<rparr>) op w = Do ctx (config\<lparr>MaxAttempts := 1\<rparr>) op w \<and>
   DoWithValue zero ctx (config\<lparr>MaxAttempts := 0\<rparr>) opv w =
     DoWithValue zero ctx (config\<lparr>MaxAttempts := 1\<rparr>) opv w \<and>
   Do_inline ctx (config\<lparr>MaxAttempts := 0\<rparr>) op w =
     Do_inline ctx (config\<lparr>MaxAttempts := 1\<rparr>) op w \<and>
   (\<forall>b. Backoff config = Some b \<longrightarrow>
      opCalls (snd (snd (Do ctx (config\<lparr>MaxAttempts := 0\<rparr>) op w))) =
        (if Err ctx (snd (Backoff_MinDelay b w)) = None then 1 else 0) \<and>
      opCalls (snd (snd (DoWithValue zero ctx (config\<lparr>MaxAttempts := 0\<rparr>) opv w))) =
        (if Err ctx (snd (Backoff_MinDelay b w)) = None then 1 else 0) \<and>
      opCalls (snd (snd (Do_inline ctx (config\<lparr>MaxAttempts := 0\<rparr>) op w))) =
        (if Err ctx (snd (Backoff_MinDelay b w)) = None then 1 else 0))"
proof -
  have eq1: "Do ctx (config\<lparr>MaxAttempts := 0\<rparr>) op w = Do ctx (config\<lparr>MaxAttempts := 1\<rparr>) op w"
    by (simp add: Do_def validateConfig_def Let_def)
  have eq2: "DoWithValue zero ctx (config\<lparr>MaxAttempts := 0\<rparr>) opv w =
             DoWithValue zero ctx (config\<lparr>MaxAttempts := 1\<rparr>) opv w"
    by (simp add: DoWithValue_def validateConfig_def Let_def)
  have eq3: "Do_inline ctx (config\<lparr>MaxAttempts := 0\<rparr>) op w =
             Do_inline ctx (config\<lparr>MaxAttempts := 1\<rparr>) op w"
    by (cases "Backoff config") (simp_all add: Do_inline_def Let_def)
  have once: "opCalls (snd (snd (Do ctx (config\<lparr>MaxAttempts := 0\<rparr>) op w))) =
                (if Err ctx (snd (Backoff_MinDelay b w)) = None then 1 else 0) \<and>
              opCalls (snd (snd (DoWithValue zero ctx (config\<lparr>MaxAttempts := 0\<rparr>) opv w))) =
                (if Err ctx (snd (Backoff_MinDelay b w)) = None then 1 else 0) \<and>
              opCalls (snd (snd (Do_inline ctx (config\<lparr>MaxAttempts := 0\<rparr>) op w))) =
                (if Err ctx (snd (Backoff_MinDelay b w)) = None then 1 else 0)"
    if "Backoff config = Some b" for b
    using that
      Do_single_attempt [of "config\<lparr>MaxAttempts := 0\<rparr>" b ctx op w]
      DoWithValue_single_attempt [of "config\<lparr>MaxAttempts := 0\<rparr>" b zero ctx opv w]
      Do_inline_single_attempt [of "config\<lparr>MaxAttempts := 0\<rparr>" b ctx op w]
    by simp
  show ?thesis
    using eq1 eq2 eq3 once by blast
qed

theorem zero_MaxAttempts_as_one_witness:
  "Do background ((testConfig 3)\<lparr>MaxAttempts := 0\<rparr>) alwaysFails (0, False) =
     Do background ((testConfig 3)\<lparr>MaxAttempts := 1\<rparr>) alwaysFails (0, False) \<and>
   Backoff (testConfig 3) = Some mockB \<and>
   Err background (snd (Backoff_MinDelay mockB (0, False))) = None \<and>
   opCalls (snd (snd (Do background ((testConfig 3)\<lparr>MaxAttempts := 0\<rparr>) alwaysFails
                        (0, False)))) = 1 \<and>
   opCalls (snd (snd (DoWithValue [] background ((testConfig 3)\<lparr>MaxAttempts := 0\<rparr>)
                        alwaysFailsV (0, False)))) = 1 \<and>
   opCalls (snd (snd (Do_inline background ((testConfig 3)\<lparr>MaxAttempts := 0\<rparr>) alwaysFails
                        (0, False)))) = 1"
proof -
  note T = zero_MaxAttempts_as_one
    [of background "testConfig 3" alwaysFails "(0, False)" "[]" alwaysFailsV]
  have b: "Backoff (testConfig 3) = Some mockB"
    by (simp add: testConfig_def)
  have e: "Err background (snd (Backoff_MinDelay mockB (0, False))) = None"
    by (simp add: background_def)
  from T have eq: "Do background ((testConfig 3)\<lparr>MaxAttempts := 0\<rparr>) alwaysFails (0, False) =
      Do background ((testConfig 3)\<lparr>MaxAttempts := 1\<rparr>) alwaysFails (0, False)"
    by blast
  from T b have
    "opCalls (snd (snd (Do background ((testConfig 3)\<lparr>MaxAttempts := 0\<rparr>) alwaysFails
        (0, False)))) =
       (if Err background (snd (Backoff_MinDelay mockB (0, False))) = None then 1 else 0) \<and>
     opCalls (snd (snd (DoWithValue [] background ((testConfig 3)\<lparr>MaxAttempts := 0\<rparr>)
        alwaysFailsV (0, False)))) =
       (if Err background (snd (Backoff_MinDelay mockB (0, False))) = None then 1 else 0) \<and>
     opCalls (snd (snd (Do_inline background ((testConfig 3)\<lparr>MaxAttempts := 0\<rparr>) alwaysFails
        (0, False)))) =
       (if Err background (snd (Backoff_MinDelay mockB (0, False))) = None then 1 else 0)"
    by blast
  with e have once:
    "opCalls (snd (snd (Do background ((testConfig 3)\<lparr>MaxAttempts := 0\<rparr>) alwaysFails
        (0, False)))) = 1 \<and>
     opCalls (snd (snd (DoWithValue [] background ((testConfig 3)\<lparr>MaxAttempts := 0\<rparr>)
        alwaysFailsV (0, False)))) = 1 \<and>
     opCalls (snd (snd (Do_inline background ((testConfig 3)\<lparr>MaxAttempts := 0\<rparr>) alwaysFails
        (0, False)))) = 1"
    by simp
  from eq b e once show ?thesis
    by blast
qed

section \<open>Properties of the executor: exhaustion and unrecoverable errors\<close>

text \<open>
  Claim C2, at the run of the test suite: the operation always fails with the same
  recoverable error and \<open>MaxAttempts = 3\<close>. \<open>DoWithValue\<close> invokes the operation 3 times and
  \<open>OnRetry\<close> twice, and its error matches \<open>ErrAllAttemptsFailed\<close>; but the last error of the
  operation is only printed into it (verb \<^verbatim>\<open>%v\<close>), so the returned error does not contain
  it in its chain. \<open>Do\<close>, on the same run, wraps it (verb \<^verbatim>\<open>%w\<close>).
\<close>

theorem DoWithValue_exhausted_loses_last_error:
  "fst (DoWithValue [] background (testConfig 3) alwaysFailsV (0, False)) =
     Return ([], Some (Errorf ''%w: %v'' [ErrAllAttemptsFailed] [persistentError])) \<and>
   opCalls (snd (snd (DoWithValue [] background (testConfig 3) alwaysFailsV (0, False)))) = 3 \<and>
   onRetryCalls (snd (snd (DoWithValue [] background (testConfig 3) alwaysFailsV (0, False)))) = 2 \<and>
   errors_Is (Some (Errorf ''%w: %v'' [ErrAllAttemptsFailed] [persistentError]))
     (Some ErrAllAttemptsFailed) \<and>
   \<not> errors_Is (Some (Errorf ''%w: %v'' [ErrAllAttemptsFailed] [persistentError]))
       (Some persistentError) \<and>
   fst (Do background (testConfig 3) alwaysFails (0, False)) =
     Return (Some (Errorf ''%w: %w'' [ErrAllAttemptsFailed, persistentError] [])) \<and>
   opCalls (snd (snd (Do background (testConfig 3) alwaysFails (0, False)))) = 3 \<and>
   onRetryCalls (snd (snd (Do background (testConfig 3) alwaysFails (0, False)))) = 2 \<and>
   errors_Is (Some (Errorf ''%w: %w'' [ErrAllAttemptsFailed, persistentError] []))
     (Some persistentError)"
  by (simp add: run_defs test_defs doRetry_loop.simps)

text \<open>An unrecoverable error of the first invocation that does not contain
  \<open>ErrAllAttemptsFailed\<close> in its chain is returned as it is, after one invocation and no
  call of \<open>OnRetry\<close>.\<close>

lemma unrecoverable_error_returned_unchanged:
  assumes "Backoff config = Some b" and "IsRecoverable config = None"
    and "Backoff_MinDelay b w0 = (d0, w1)" and "Err ctx w1 = None"
    and "opv w1 = ((x, Some e), w2)" and "IsUnrecoverableError (Some e)"
    and "\<not> errors_Is (Some e) (Some ErrAllAttemptsFailed)"
  shows "Do ctx config (\<lambda>w. (snd (fst (opv w)), snd (opv w))) w0 =
           (Return (Some e), w2, [(MinDelayCall, w1), (OpCall 0, w2)])"
    and "DoWithValue zero ctx config opv w0 =
           (Return (zero, Some e), w2, [(MinDelayCall, w1), (OpCall 0, w2)])"
proof -
  let ?cfg = "snd (validateConfig config)"
  have vc: "0 < MaxAttempts ?cfg" "IsRecoverable ?cfg = Some defaultRecoverable"
    using validateConfig_ok [OF assms(1)] assms(2) by simp_all
  have nr: "\<not> defaultRecoverable (Some e)"
    using assms(6) by (simp add: defaultRecoverable_def)
  have loop: "doRetry_loop ctx ?cfg operation 0 d0 w1 c [(MinDelayCall, w1)] =
                (Return (Some e), w2, c', [(MinDelayCall, w1), (OpCall 0, w2)])"
    if "operation 0 w1 c = ((False, Some e), w2, c')" for operation c c'
    using vc nr assms(4) that by (subst doRetry_loop.simps) (auto simp: Let_def)
  have runE: "doRetry_loop ctx ?cfg (Do_operation (\<lambda>w. (snd (fst (opv w)), snd (opv w)))) 0 d0 w1
                None [(MinDelayCall, w1)] =
              (Return (Some e), w2, Some e, [(MinDelayCall, w1), (OpCall 0, w2)])"
    using assms(5) by (intro loop) (simp add: Do_operation_def)
  have runV: "doRetry_loop ctx ?cfg (DoWithValue_operation opv) 0 d0 w1 (zero, None)
                [(MinDelayCall, w1)] =
              (Return (Some e), w2, (x, Some e), [(MinDelayCall, w1), (OpCall 0, w2)])"
    using assms(5) by (intro loop) (simp add: DoWithValue_operation_def)
  show "Do ctx config (\<lambda>w. (snd (fst (opv w)), snd (opv w))) w0 =
           (Return (Some e), w2, [(MinDelayCall, w1), (OpCall 0, w2)])"
    using assms(7) by (simp add: Do_unfold [OF assms(1,3) runE])
  show "DoWithValue zero ctx config opv w0 =
           (Return (zero, Some e), w2, [(MinDelayCall, w1), (OpCall 0, w2)])"
    using assms(7) by (simp add: DoWithValue_unfold [OF assms(1,3) runV])
qed

text \<open>
  Claim C6, at a run where the unrecoverable error of the first invocation contains
  \<open>ErrAllAttemptsFailed\<close> in its chain (the operation marks the error of an exhausted inner
  \<open>Do\<close> as unrecoverable), with \<open>MaxAttempts = 5\<close> and the default classification. The
  operation is invoked once and \<open>OnRetry\<close> never, but \<open>Do\<close> does not return the error of
  the operation: it returns a new error that wraps the exhaustion sentinel. \<open>DoWithValue\<close>
  returns an error that is not even marked unrecoverable any more. The earlier copy of
  \<open>Do\<close> returns the error of the operation unchanged.
\<close>

theorem unrecoverable_error_rewrapped_as_exhaustion:
  "failsUnrecoverably (0, False) = (Some (UnrecoverableError (Some innerExhausted)), (1, False)) \<and>
   Do background (testConfig 5) failsUnrecoverably (0, False) =
     (Return (Some (Errorf ''%w: %w''
                [ErrAllAttemptsFailed, UnrecoverableError (Some innerExhausted)] [])),
      (1, False), [(MinDelayCall, (0, False)), (OpCall 0, (1, False))]) \<and>
   DoWithValue [] background (testConfig 5) failsUnrecoverablyV (0, False) =
     (Return ([], Some (Errorf ''%w: %v''
                [ErrAllAttemptsFailed] [UnrecoverableError (Some innerExhausted)])),
      (1, False), [(MinDelayCall, (0, False)), (OpCall 0, (1, False))]) \<and>
   \<not> IsUnrecoverableError
       (Some (Errorf ''%w: %v'' [ErrAllAttemptsFailed] [UnrecoverableError (Some innerExhausted)])) \<and>
   Do_inline background (testConfig 5) failsUnrecoverably (0, False) =
     (Some (UnrecoverableError (Some innerExhausted)),
      (1, False), [(MinDelayCall, (0, False)), (OpCall 0, (1, False))])"
  by (simp add: run_defs test_defs doRetry_loop.simps Do_inline_loop.simps)

section \<open>Properties of the executor: success after retries\<close>

lemma notifyRetry_Some:
  assumes "OnRetry config = Some onRetry"
  shows "notifyRetry config attempt err delay w tr =
           (onRetry attempt err delay w,
            tr @ [(OnRetryCall attempt err delay, onRetry attempt err delay w)])"
  using assms by (simp add: notifyRetry_def Let_def)

lemma loop_fails_twice_then_succeeds:
  assumes cfg: "Backoff config = Some b" "MaxAttempts config = 5" "OnRetry config = Some onRetry"
      "IsRecoverable config = Some p"
    and E1: "p (Some e\<^sub>1)" "\<not> errors_Is (Some e\<^sub>1) (Some Canceled)"
      "\<not> errors_Is (Some e\<^sub>1) (Some DeadlineExceeded)"
    and E2: "p (Some e\<^sub>2)" "\<not> errors_Is (Some e\<^sub>2) (Some Canceled)"
      "\<not> errors_Is (Some e\<^sub>2) (Some DeadlineExceeded)"
    and a1: "Err ctx w\<^sub>1 = None" "operation 0 w\<^sub>1 c\<^sub>0 = ((False, Some e\<^sub>1), w\<^sub>2, c\<^sub>1)" "Err ctx w\<^sub>2 = None"
    and r1: "selectDone ctx d\<^sub>0 (onRetry 1 (Some e\<^sub>1) d\<^sub>0 w\<^sub>2) = (False, w\<^sub>3)"
      "Backoff_Delay b d\<^sub>0 w\<^sub>3 = (d\<^sub>1, w\<^sub>4)"
    and a2: "Err ctx w\<^sub>4 = None" "operation 1 w\<^sub>4 c\<^sub>1 = ((False, Some e\<^sub>2), w\<^sub>5, c\<^sub>2)" "Err ctx w\<^sub>5 = None"
    and r2: "selectDone ctx d\<^sub>1 (onRetry 2 (Some e\<^sub>2) d\<^sub>1 w\<^sub>5) = (False, w\<^sub>6)"
      "Backoff_Delay b d\<^sub>1 w\<^sub>6 = (d\<^sub>2, w\<^sub>7)"
    and a3: "Err ctx w\<^sub>7 = None" "operation 2 w\<^sub>7 c\<^sub>2 = ((True, x), w\<^sub>8, c\<^sub>3)"
  shows "doRetry_loop ctx config operation 0 d\<^sub>0 w\<^sub>1 c\<^sub>0 tr =
           (Return None, w\<^sub>8, c\<^sub>3,
            tr @ [(OpCall 0, w\<^sub>2), (OnRetryCall 1 (Some e\<^sub>1) d\<^sub>0, onRetry 1 (Some e\<^sub>1) d\<^sub>0 w\<^sub>2),
                  (SelectCall d\<^sub>0, w\<^sub>3), (DelayCall d\<^sub>0, w\<^sub>4),
                  (OpCall 1, w\<^sub>5), (OnRetryCall 2 (Some e\<^sub>2) d\<^sub>1, onRetry 2 (Some e\<^sub>2) d\<^sub>1 w\<^sub>5),
                  (SelectCall d\<^sub>1, w\<^sub>6), (DelayCall d\<^sub>1, w\<^sub>7),
                  (OpCall 2, w\<^sub>8)])"
proof -
  have third: "doRetry_loop ctx config operation 2 d\<^sub>2 w\<^sub>7 c\<^sub>2 t =
                 (Return None, w\<^sub>8, c\<^sub>3, t @ [(OpCall 2, w\<^sub>8)])" for t
    using cfg a3 by (subst doRetry_loop.simps) simp
  have second: "doRetry_loop ctx config operation 1 d\<^sub>1 w\<^sub>4 c\<^sub>1 t =
                  doRetry_loop ctx config operation 2 d\<^sub>2 w\<^sub>7 c\<^sub>2
                    (t @ [(OpCall 1, w\<^sub>5),
                          (OnRetryCall 2 (Some e\<^sub>2) d\<^sub>1, onRetry 2 (Some e\<^sub>2) d\<^sub>1 w\<^sub>5),
                          (SelectCall d\<^sub>1, w\<^sub>6), (DelayCall d\<^sub>1, w\<^sub>7)])" for t
    using cfg E2 a2 r2
    by (subst doRetry_loop.simps) (simp add: notifyRetry_Some [OF cfg(3)] numeral_2_eq_2)
  have first: "doRetry_loop ctx config operation 0 d\<^sub>0 w\<^sub>1 c\<^sub>0 t =
                 doRetry_loop ctx config operation 1 d\<^sub>1 w\<^sub>4 c\<^sub>1
                   (t @ [(OpCall 0, w\<^sub>2),
                         (OnRetryCall 1 (Some e\<^sub>1) d\<^sub>0, onRetry 1 (Some e\<^sub>1) d\<^sub>0 w\<^sub>2),
                         (SelectCall d\<^sub>0, w\<^sub>3), (DelayCall d\<^sub>0, w\<^sub>4)])" for t
    using cfg E1 a1 r1 by (subst doRetry_loop.simps) (simp add: notifyRetry_Some [OF cfg(3)])
  show ?thesis
    unfolding first second third by simp
qed

text \<open>
  Claim C5, as stated, fails for a predicate of the caller: the executor looks for
  \<open>Canceled\<close> and \<open>DeadlineExceeded\<close> in the chain of the error before it asks the
  predicate. With \<open>MaxAttempts = 5\<close>, a context that is never cancelled and a predicate
  that accepts every error, an operation that fails twice with an error wrapping
  \<open>DeadlineExceeded\<close> and would succeed the third time is invoked once: \<open>DoWithValue\<close> and
  \<open>Do\<close> return that error, and \<open>OnRetry\<close> is not called.
\<close>

theorem accepted_deadline_error_is_not_retried:
  "MaxAttempts retriesEverything = 5 \<and>
   IsRecoverable retriesEverything = Some (\<lambda>err. True) \<and>
   timesOutTwiceV (0, False) = (([], Some queryTimedOut), (1, False)) \<and>
   timesOutTwiceV (1, False) = (([], Some queryTimedOut), (2, False)) \<and>
   timesOutTwiceV (2, False) = ((''eventual success'', None), (3, False)) \<and>
   DoWithValue [] background retriesEverything timesOutTwiceV (0, False) =
     (Return ([], Some queryTimedOut), (1, False),
      [(MinDelayCall, (0, False)), (OpCall 0, (1, False))]) \<and>
   Do background retriesEverything (\<lambda>w. (snd (fst (timesOutTwiceV w)), snd (timesOutTwiceV w)))
     (0, False) =
     (Return (Some queryTimedOut), (1, False),
      [(MinDelayCall, (0, False)), (OpCall 0, (1, False))]) \<and>
   opCalls [(MinDelayCall, (0, False)), (OpCall 0, ((1, False) :: testWorld))] = 1 \<and>
   onRetryCalls [(MinDelayCall, (0, False)), (OpCall 0, ((1, False) :: testWorld))] = 0"
  by (simp add: run_defs test_defs doRetry_loop.simps)

text \<open>
  Claim C5, amended. The operation fails on its first two invocations with errors \<open>e\<^sub>1\<close>
  and \<open>e\<^sub>2\<close> that the predicate in force accepts and that have neither \<open>Canceled\<close> nor
  \<open>DeadlineExceeded\<close> in their chain, and succeeds with the value \<open>v\<close> on the third;
  \<open>MaxAttempts = 5\<close>, an \<open>OnRetry\<close> callback is set, the context is not cancelled and both
  waits run to their end. Then \<open>DoWithValue\<close> returns \<open>v\<close> and no error, and \<open>Do\<close>, run on
  the same operation without its value, returns no error. Both make exactly the calls
  listed: three invocations of the operation, two calls of \<open>OnRetry\<close>, two waits, and
  nothing after the invocation that succeeds.
\<close>

theorem fails_twice_then_succeeds:
  assumes cfg: "Backoff config = Some b" "MaxAttempts config = 5" "OnRetry config = Some onRetry"
    and E1: "(case IsRecoverable config of None \<Rightarrow> defaultRecoverable | Some p \<Rightarrow> p) (Some e\<^sub>1)"
      "\<not> errors_Is (Some e\<^sub>1) (Some Canceled)" "\<not> errors_Is (Some e\<^sub>1) (Some DeadlineExceeded)"
    and E2: "(case IsRecoverable config of None \<Rightarrow> defaultRecoverable | Some p \<Rightarrow> p) (Some e\<^sub>2)"
      "\<not> errors_Is (Some e\<^sub>2) (Some Canceled)" "\<not> errors_Is (Some e\<^sub>2) (Some DeadlineExceeded)"
    and m: "Backoff_MinDelay b w\<^sub>0 = (d\<^sub>0, w\<^sub>1)"
    and a1: "Err ctx w\<^sub>1 = None" "opv w\<^sub>1 = ((v\<^sub>1, Some e\<^sub>1), w\<^sub>2)" "Err ctx w\<^sub>2 = None"
    and r1: "selectDone ctx d\<^sub>0 (onRetry 1 (Some e\<^sub>1) d\<^sub>0 w\<^sub>2) = (False, w\<^sub>3)"
      "Backoff_Delay b d\<^sub>0 w\<^sub>3 = (d\<^sub>1, w\<^sub>4)"
    and a2: "Err ctx w\<^sub>4 = None" "opv w\<^sub>4 = ((v\<^sub>2, Some e\<^sub>2), w\<^sub>5)" "Err ctx w\<^sub>5 = None"
    and r2: "selectDone ctx d\<^sub>1 (onRetry 2 (Some e\<^sub>2) d\<^sub>1 w\<^sub>5) = (False, w\<^sub>6)"
      "Backoff_Delay b d\<^sub>1 w\<^sub>6 = (d\<^sub>2, w\<^sub>7)"
    and a3: "Err ctx w\<^sub>7 = None" "opv w\<^sub>7 = ((v, None), w\<^sub>8)"
  shows "DoWithValue zero ctx config opv w\<^sub>0 =
           (Return (v, None), w\<^sub>8,
            [(MinDelayCall, w\<^sub>1),
             (OpCall 0, w\<^sub>2), (OnRetryCall 1 (Some e\<^sub>1) d\<^sub>0, onRetry 1 (Some e\<^sub>1) d\<^sub>0 w\<^sub>2),
             (SelectCall d\<^sub>0, w\<^sub>3), (DelayCall d\<^sub>0, w\<^sub>4),
             (OpCall 1, w\<^sub>5), (OnRetryCall 2 (Some e\<^sub>2) d\<^sub>1, onRetry 2 (Some e\<^sub>2) d\<^sub>1 w\<^sub>5),
             (SelectCall d\<^sub>1, w\<^sub>6), (DelayCall d\<^sub>1, w\<^sub>7),
             (OpCall 2, w\<^sub>8)]) \<and>
         Do ctx config (\<lambda>w. (snd (fst (opv w)), snd (opv w))) w\<^sub>0 =
           (Return None, w\<^sub>8, snd (snd (DoWithValue zero ctx config opv w\<^sub>0))) \<and>
         opCalls (snd (snd (DoWithValue zero ctx config opv w\<^sub>0))) = 3 \<and>
         onRetryCalls (snd (snd (DoWithValue zero ctx config opv w\<^sub>0))) = 2 \<and>
         fst (last (snd (snd (DoWithValue zero ctx config opv w\<^sub>0)))) = OpCall 2"
proof -
  let ?cfg = "snd (validateConfig config)"
  let ?p = "case IsRecoverable config of None \<Rightarrow> defaultRecoverable | Some p \<Rightarrow> p"
  let ?T = "[(MinDelayCall, w\<^sub>1),
             (OpCall 0, w\<^sub>2), (OnRetryCall 1 (Some e\<^sub>1) d\<^sub>0, onRetry 1 (Some e\<^sub>1) d\<^sub>0 w\<^sub>2),
             (SelectCall d\<^sub>0, w\<^sub>3), (DelayCall d\<^sub>0, w\<^sub>4),
             (OpCall 1, w\<^sub>5), (OnRetryCall 2 (Some e\<^sub>2) d\<^sub>1, onRetry 2 (Some e\<^sub>2) d\<^sub>1 w\<^sub>5),
             (SelectCall d\<^sub>1, w\<^sub>6), (DelayCall d\<^sub>1, w\<^sub>7),
             (OpCall 2, w\<^sub>8)]"
  have vc: "Backoff ?cfg = Some b" "MaxAttempts ?cfg = 5" "OnRetry ?cfg = Some onRetry"
    "IsRecoverable ?cfg = Some ?p"
    using validateConfig_ok [OF cfg(1)] cfg(2,3) by simp_all
  have runV: "doRetry_loop ctx ?cfg (DoWithValue_operation opv) 0 d\<^sub>0 w\<^sub>1 (zero, None)
                [(MinDelayCall, w\<^sub>1)] = (Return None, w\<^sub>8, (v, Some e\<^sub>2), ?T)"
    using loop_fails_twice_then_succeeds
      [where operation = "DoWithValue_operation opv" and ctx = ctx
        and c\<^sub>0 = "(zero, None)" and c\<^sub>1 = "(v\<^sub>1, Some e\<^sub>1)" and c\<^sub>2 = "(v\<^sub>2, Some e\<^sub>2)"
        and c\<^sub>3 = "(v, Some e\<^sub>2)" and tr = "[(MinDelayCall, w\<^sub>1)]",
        OF vc E1 E2 a1(1) _ a1(3) r1 a2(1) _ a2(3) r2 a3(1)]
      a1(2) a2(2) a3(2)
    by (simp add: DoWithValue_operation_def)
  have runE: "doRetry_loop ctx ?cfg (Do_operation (\<lambda>w. (snd (fst (opv w)), snd (opv w)))) 0 d\<^sub>0 w\<^sub>1
                None [(MinDelayCall, w\<^sub>1)] = (Return None, w\<^sub>8, Some e\<^sub>2, ?T)"
    using loop_fails_twice_then_succeeds
      [where operation = "Do_operation (\<lambda>w. (snd (fst (opv w)), snd (opv w)))" and ctx = ctx
        and c\<^sub>0 = None and c\<^sub>1 = "Some e\<^sub>1" and c\<^sub>2 = "Some e\<^sub>2"
        and c\<^sub>3 = "Some e\<^sub>2" and tr = "[(MinDelayCall, w\<^sub>1)]",
        OF vc E1 E2 a1(1) _ a1(3) r1 a2(1) _ a2(3) r2 a3(1)]
      a1(2) a2(2) a3(2)
    by (simp add: Do_operation_def)
  have V: "DoWithValue zero ctx config opv w\<^sub>0 = (Return (v, None), w\<^sub>8, ?T)"
    by (simp add: DoWithValue_unfold [OF cfg(1) m runV])
  have E: "Do ctx config (\<lambda>w. (snd (fst (opv w)), snd (opv w))) w\<^sub>0 = (Return None, w\<^sub>8, ?T)"
    by (simp add: Do_unfold [OF cfg(1) m runE])
  show ?thesis
    by (simp add: V E opCalls_def onRetryCalls_def)
qed

theorem fails_twice_then_succeeds_witness:
  "DoWithValue [] background (testConfig 5) failsTwiceV (0, False) =
     (Return (''eventual success'', None), (3, False),
      [(MinDelayCall, (0, False)),
       (OpCall 0, (1, False)), (OnRetryCall 1 (Some temporaryError) 10, (1, False)),
       (SelectCall 10, (1, False)), (DelayCall 10, (1, False)),
       (OpCall 1, (2, False)), (OnRetryCall 2 (Some temporaryError) 20, (2, False)),
       (SelectCall 20, (2, False)), (DelayCall 20, (2, False)),
       (OpCall 2, (3, False))]) \<and>
   fst (Do background (testConfig 5) (\<lambda>w. (snd (fst (failsTwiceV w)), snd (failsTwiceV w)))
          (0, False)) = Return None \<and>
   opCalls (snd (snd (DoWithValue [] background (testConfig 5) failsTwiceV (0, False)))) = 3 \<and>
   onRetryCalls (snd (snd (DoWithValue [] background (testConfig 5) failsTwiceV (0, False)))) = 2"
proof -
  note T = fails_twice_then_succeeds
    [where config = "testConfig 5" and b = mockB and onRetry = "\<lambda>attempt err delay w. w"
      and ctx = background and opv = failsTwiceV and zero = "[]"
      and e\<^sub>1 = temporaryError and e\<^sub>2 = temporaryError
      and w\<^sub>0 = "(0, False)" and w\<^sub>1 = "(0, False)" and w\<^sub>2 = "(1, False)" and w\<^sub>3 = "(1, False)"
      and w\<^sub>4 = "(1, False)" and w\<^sub>5 = "(2, False)" and w\<^sub>6 = "(2, False)" and w\<^sub>7 = "(2, False)"
      and w\<^sub>8 = "(3, False)" and d\<^sub>0 = 10 and d\<^sub>1 = 20 and d\<^sub>2 = 20
      and v\<^sub>1 = "[]" and v\<^sub>2 = "[]" and v = "''eventual success''"]
  have "DoWithValue [] background (testConfig 5) failsTwiceV (0, False) =
     (Return (''eventual success'', None), (3, False),
      [(MinDelayCall, (0, False)),
       (OpCall 0, (1, False)), (OnRetryCall 1 (Some temporaryError) 10, (1, False)),
       (SelectCall 10, (1, False)), (DelayCall 10, (1, False)),
       (OpCall 1, (2, False)), (OnRetryCall 2 (Some temporaryError) 20, (2, False)),
       (SelectCall 20, (2, False)), (DelayCall 20, (2, False)),
       (OpCall 2, (3, False))]) \<and>
     Do background (testConfig 5) (\<lambda>w. (snd (fst (failsTwiceV w)), snd (failsTwiceV w)))
       (0, False) =
       (Return None, (3, False),
        snd (snd (DoWithValue [] background (testConfig 5) failsTwiceV (0, False)))) \<and>
     opCalls (snd (snd (DoWithValue [] background (testConfig 5) failsTwiceV (0, False)))) = 3 \<and>
     onRetryCalls (snd (snd (DoWithValue [] background (testConfig 5) failsTwiceV (0, False)))) = 2 \<and>
     fst (last (snd (snd (DoWithValue [] background (testConfig 5) failsTwiceV (0, False))))) =
       OpCall 2"
    by (rule T)
      (simp_all add: testConfig_def mockB_def background_def failsTwiceV_def temporaryError_def
        defaultRecoverable_def errors_Is_def IsUnrecoverableError_def)
  then show ?thesis
    by (simp add: opCalls_def onRetryCalls_def)
qed

section \<open>Properties of the executor: cancellation\<close>

lemma cancellationRespected_mono:
  assumes "cancellationRespected ctx P tr"
    and "\<And>x e. x \<in> set tr \<Longrightarrow> Err ctx (snd x) = Some e \<Longrightarrow> P e \<Longrightarrow> Q e"
  shows "cancellationRespected ctx Q tr"
  using assms by (induction tr) (auto split: option.splits)

text \<open>The same property, read over every way of cutting the trace at one of its calls.\<close>

lemma cancellationRespected_iff:
  "cancellationRespected ctx R tr \<longleftrightarrow>
     (\<forall>pre x post e. tr = pre @ x # post \<and> Err ctx (snd x) = Some e \<longrightarrow>
        (\<forall>y\<in>set post. \<not> isOpCall (fst y)) \<and>
        (isAttemptEntry (fst x) \<longrightarrow> post = [] \<and> R e) \<and>
        (isSelectCall (fst x) \<longrightarrow> R e))"
  (is "_ \<longleftrightarrow> ?D tr")
proof (induction tr)
  case Nil
  then show ?case by simp
next
  case (Cons a tr)
  let ?Q = "\<lambda>x post e. (\<forall>y\<in>set post. \<not> isOpCall (fst y)) \<and>
        (isAttemptEntry (fst x) \<longrightarrow> post = [] \<and> R e) \<and>
        (isSelectCall (fst x) \<longrightarrow> R e)"
  have "?D (a # tr) \<longleftrightarrow> (\<forall>e. Err ctx (snd a) = Some e \<longrightarrow> ?Q a tr e) \<and> ?D tr"
  proof (rule iffI)
    assume L: "?D (a # tr)"
    have "\<forall>e. Err ctx (snd a) = Some e \<longrightarrow> ?Q a tr e"
      using L by (metis append_Nil)
    moreover have "?D tr"
      using L by (metis append_Cons)
    ultimately show "(\<forall>e. Err ctx (snd a) = Some e \<longrightarrow> ?Q a tr e) \<and> ?D tr"
      by (rule conjI)
  next
    assume h: "(\<forall>e. Err ctx (snd a) = Some e \<longrightarrow> ?Q a tr e) \<and> ?D tr"
    show "?D (a # tr)"
    proof (intro allI impI)
      fix pre x post e
      assume d: "a # tr = pre @ x # post \<and> Err ctx (snd x) = Some e"
      show "?Q x post e"
      proof (cases pre)
        case Nil
        with d h show ?thesis by simp
      next
        case (Cons p pre')
        with d have "tr = pre' @ x # post" by simp
        with d h show ?thesis by blast
      qed
    qed
  qed
  with Cons show ?case
    by (simp split: option.split)
qed

lemma doRetry_loop_respects_cancellation:
  assumes sticky_select: "\<And>d x e. Err ctx x = Some e \<Longrightarrow> Err ctx (snd (selectDone ctx d x)) = Some e"
    and sticky_delay: "\<And>d x e. Err ctx x = Some e \<Longrightarrow> Err ctx (snd (Backoff_Delay b d x)) = Some e"
    and backoff: "Backoff config = Some b"
    and run: "doRetry_loop ctx config operation attempt delay w c tr = (r, w', c', tr')"
  shows "\<exists>new. tr' = tr @ new \<and> cancellationRespected ctx (\<lambda>e. r = Return (Some e)) new \<and>
           (attempt < MaxAttempts config \<longrightarrow>
              (\<forall>e. Err ctx w = Some e \<longrightarrow> new = [] \<and> r = Return (Some e)))"
  using run
proof (induction "MaxAttempts config - attempt" arbitrary: attempt delay w c tr)
  case 0
  then have "\<not> attempt < MaxAttempts config"
    by simp
  with "0.prems" show ?case
    by (simp add: loop_over)
next
  case (Suc n)
  have lt: "attempt < MaxAttempts config"
    using Suc.hyps(2) by simp
  note run = Suc.prems
  show ?case
  proof (cases "Err ctx w")
    case (Some e)
    with run show ?thesis
      by (simp add: loop_cancelled [OF lt Some])
  next
    case None
    obtain success err w1 c1 where op: "operation attempt w c = ((success, err), w1, c1)"
      by (cases "operation attempt w c") auto
    let ?one = "[(OpCall attempt, w1)]"
    show ?thesis
    proof (cases "success \<or> errors_Is err (Some Canceled) \<or> errors_Is err (Some DeadlineExceeded) \<or>
                  Err ctx w1 \<noteq> None")
      case True
      then have "tr' = tr @ ?one"
        using run loop_success [where operation = operation and attempt = attempt and w = w and c = c, OF lt None, of err w1 c1 delay tr]
          loop_interrupted [where operation = operation and attempt = attempt and w = w and c = c, OF lt None, of err w1 c1 delay tr] op
        by (cases success) auto
      with None show ?thesis
        by (intro exI [of _ ?one]) (simp split: option.split)
    next
      case False
      then have ns: "\<not> success" and nc: "\<not> errors_Is err (Some Canceled)"
        and nd: "\<not> errors_Is err (Some DeadlineExceeded)" and e1: "Err ctx w1 = None"
        by simp_all
      from op ns have op': "operation attempt w c = ((False, err), w1, c1)"
        by simp
      show ?thesis
      proof (cases "IsRecoverable config")
        case None
        then have "tr' = tr @ ?one"
          using run loop_no_predicate [where operation = operation and attempt = attempt and w = w and c = c, OF lt \<open>Err ctx w = None\<close> op' nc nd e1] by auto
        with \<open>Err ctx w = None\<close> e1 show ?thesis
          by (intro exI [of _ ?one]) simp
      next
        case (Some p)
        show ?thesis
        proof (cases "\<not> p err \<or> MaxAttempts config \<le> attempt + 1")
          case True
          then have "tr' = tr @ ?one"
            using run loop_not_recoverable [where operation = operation and attempt = attempt and w = w and c = c, OF lt \<open>Err ctx w = None\<close> op' nc nd e1 Some]
              loop_exhausted [where operation = operation and attempt = attempt and w = w and c = c, OF lt \<open>Err ctx w = None\<close> op' nc nd e1 Some]
            by (cases "p err") auto
          with \<open>Err ctx w = None\<close> e1 show ?thesis
            by (intro exI [of _ ?one]) simp
        next
          case False
          then have rec: "p err" and more: "\<not> MaxAttempts config \<le> attempt + 1"
            by simp_all
          obtain w2 tr2 where nr:
            "notifyRetry config (attempt + 1) err delay w1 (tr @ ?one) = (w2, tr2)"
            by (metis prod.exhaust)
          obtain extra where tr2: "tr2 = tr @ ?one @ extra"
            and extra: "extra = [] \<and> w2 = w1 \<or> extra = [(OnRetryCall (attempt + 1) err delay, w2)]"
            using nr by (auto simp: notifyRetry_def Let_def split: option.splits)
          obtain fired w3 where sel: "selectDone ctx delay w2 = (fired, w3)"
            by (metis prod.exhaust)
          have s3: "Err ctx w3 = Some e" if "Err ctx w2 = Some e" for e
            using sticky_select [OF that, of delay] sel by simp
          show ?thesis
          proof (cases fired)
            case True
            with sel have sel': "selectDone ctx delay w2 = (True, w3)"
              by simp
            have res: "r = Return (Err ctx w3)" "tr' = tr @ ?one @ extra @ [(SelectCall delay, w3)]"
              using run loop_wait_cancelled
                [where operation = operation and attempt = attempt and w = w and c = c, OF lt \<open>Err ctx w = None\<close> op' nc nd e1 Some rec more nr sel'] tr2
              by auto
            show ?thesis
              using res \<open>Err ctx w = None\<close> e1 extra
              by (intro exI [of _ "?one @ extra @ [(SelectCall delay, w3)]"])
                (auto split: option.split)
          next
            case False
            with sel have sel': "selectDone ctx delay w2 = (False, w3)"
              by simp
            obtain delay' w4 where dl: "Backoff_Delay b delay w3 = (delay', w4)"
              by (metis prod.exhaust)
            have s4: "Err ctx w4 = Some e" if "Err ctx w3 = Some e" for e
              using sticky_delay [OF that, of delay] dl by simp
            have eq: "doRetry_loop ctx config operation (attempt + 1) delay' w4 c1
                        (tr2 @ [(SelectCall delay, w3), (DelayCall delay, w4)]) = (r, w', c', tr')"
              using run loop_retry
                [where operation = operation and attempt = attempt and w = w and c = c, OF lt \<open>Err ctx w = None\<close> op' nc nd e1 Some rec more nr sel' backoff dl]
              by auto
            have "n = MaxAttempts config - (attempt + 1)"
              using Suc.hyps(2) by simp
            from Suc.hyps(1) [OF this eq] more
            obtain new' where new': "tr' = (tr2 @ [(SelectCall delay, w3), (DelayCall delay, w4)]) @ new'"
              and cr: "cancellationRespected ctx (\<lambda>e. r = Return (Some e)) new'"
              and fin: "\<And>e. Err ctx w4 = Some e \<Longrightarrow> new' = [] \<and> r = Return (Some e)"
              by auto
            let ?R = "\<lambda>e. r = Return (Some e)"
            let ?sel = "(SelectCall delay, w3)" and ?del = "(DelayCall delay, w4)"
            have cr4: "cancellationRespected ctx ?R (?del # new')"
            proof (cases "Err ctx w4")
              case None
              with cr show ?thesis by simp
            next
              case (Some e)
              with fin [OF Some] cr show ?thesis by simp
            qed
            have cr3: "cancellationRespected ctx ?R (?sel # ?del # new')"
            proof (cases "Err ctx w3")
              case None
              with cr4 show ?thesis by simp
            next
              case (Some e)
              with fin [OF s4 [OF Some]] cr4 show ?thesis by simp
            qed
            have crx: "cancellationRespected ctx ?R (extra @ ?sel # ?del # new')"
            proof (cases "extra = []")
              case True
              with cr3 show ?thesis by simp
            next
              case False
              with extra have ex: "extra = [(OnRetryCall (attempt + 1) err delay, w2)]"
                by simp
              show ?thesis
              proof (cases "Err ctx w2")
                case None
                with ex cr3 show ?thesis by simp
              next
                case (Some e)
                with fin [OF s4 [OF s3 [OF Some]]] ex cr3 show ?thesis by simp
              qed
            qed
            have cr1: "cancellationRespected ctx ?R (?one @ extra @ ?sel # ?del # new')"
              using crx e1 by simp
            show ?thesis
              using new' tr2 cr1 \<open>Err ctx w = None\<close>
              by (intro exI [of _ "?one @ extra @ ?sel # ?del # new'"]) simp
          qed
        qed
      qed
    qed
  qed
qed

lemma Do_inline_loop_respects_cancellation:
  assumes sticky_select: "\<And>d x e. Err ctx x = Some e \<Longrightarrow> Err ctx (snd (selectDone ctx d x)) = Some e"
    and sticky_delay: "\<And>d x e. Err ctx x = Some e \<Longrightarrow> Err ctx (snd (Backoff_Delay b d x)) = Some e"
    and run: "Do_inline_loop ctx config b p op attempt delay w lastErr tr = (r, w', tr')"
  shows "\<exists>new. tr' = tr @ new \<and> cancellationRespected ctx (\<lambda>e. r = Some e) new \<and>
           (attempt < MaxAttempts config \<longrightarrow>
              (\<forall>e. Err ctx w = Some e \<longrightarrow> new = [] \<and> r = Some e))"
  using run
proof (induction "MaxAttempts config - attempt" arbitrary: attempt delay w lastErr tr)
  case 0
  then have "\<not> attempt < MaxAttempts config"
    by simp
  with "0.prems" show ?case
    by (simp add: inline_over)
next
  case (Suc n)
  have lt: "attempt < MaxAttempts config"
    using Suc.hyps(2) by simp
  note run = Suc.prems
  show ?case
  proof (cases "Err ctx w")
    case (Some e)
    with run show ?thesis
      by (simp add: inline_cancelled [OF lt Some])
  next
    case None
    note e0 = None
    obtain err w1 where op: "op w = (err, w1)"
      by (cases "op w") auto
    let ?one = "[(OpCall attempt, w1)]"
    show ?thesis
    proof (cases err)
      case None
      with op have "tr' = tr @ ?one"
        using run inline_success [where op = op and w = w, OF lt e0, of w1] by auto
      with e0 show ?thesis
        by (intro exI [of _ ?one]) (simp split: option.split)
    next
      case (Some e)
      with op have op': "op w = (Some e, w1)"
        by simp
      show ?thesis
      proof (cases "errors_Is (Some e) (Some Canceled) \<or> Err ctx w1 \<noteq> None \<or> \<not> p (Some e) \<or>
                    MaxAttempts config \<le> attempt + 1")
        case True
        have "tr' = tr @ ?one"
        proof (cases "errors_Is (Some e) (Some Canceled) \<or> Err ctx w1 \<noteq> None")
          case True
          then show ?thesis
            using run inline_interrupted [where op = op and w = w, OF lt e0 op'] by auto
        next
          case False
          with True show ?thesis
            using run
              inline_not_recoverable [where op = op and w = w and p = p, OF lt e0 op']
              inline_exhausted [where op = op and w = w and p = p, OF lt e0 op']
            by (cases "p (Some e)") auto
        qed
        with e0 show ?thesis
          by (intro exI [of _ ?one]) (simp split: option.split)
      next
        case False
        then have nc: "\<not> errors_Is (Some e) (Some Canceled)" and e1: "Err ctx w1 = None"
          and rec: "p (Some e)" and more: "\<not> MaxAttempts config \<le> attempt + 1"
          by simp_all
        obtain w2 tr2 where nr:
          "notifyRetry config (attempt + 1) (Some e) delay w1 (tr @ ?one) = (w2, tr2)"
          by (metis prod.exhaust)
        obtain extra where tr2: "tr2 = tr @ ?one @ extra"
          and extra: "extra = [] \<and> w2 = w1 \<or>
                      extra = [(OnRetryCall (attempt + 1) (Some e) delay, w2)]"
          using nr by (auto simp: notifyRetry_def Let_def split: option.splits)
        obtain fired w3 where sel: "selectDone ctx delay w2 = (fired, w3)"
          by (metis prod.exhaust)
        have s3: "Err ctx w3 = Some x" if "Err ctx w2 = Some x" for x
          using sticky_select [OF that, of delay] sel by simp
        show ?thesis
        proof (cases fired)
          case True
          with sel have sel': "selectDone ctx delay w2 = (True, w3)"
            by simp
          have res: "r = Err ctx w3" "tr' = tr @ ?one @ extra @ [(SelectCall delay, w3)]"
            using run inline_wait_cancelled
              [where op = op and w = w and p = p, OF lt e0 op' nc e1 rec more nr sel'] tr2
            by auto
          show ?thesis
            using res e0 e1 extra
            by (intro exI [of _ "?one @ extra @ [(SelectCall delay, w3)]"])
              (auto split: option.split)
        next
          case False
          with sel have sel': "selectDone ctx delay w2 = (False, w3)"
            by simp
          obtain delay' w4 where dl: "Backoff_Delay b delay w3 = (delay', w4)"
            by (metis prod.exhaust)
          have s4: "Err ctx w4 = Some x" if "Err ctx w3 = Some x" for x
            using sticky_delay [OF that, of delay] dl by simp
          have eq: "Do_inline_loop ctx config b p op (attempt + 1) delay' w4 (Some e)
                      (tr2 @ [(SelectCall delay, w3), (DelayCall delay, w4)]) = (r, w', tr')"
            using run inline_retry
              [where op = op and w = w and p = p, OF lt e0 op' nc e1 rec more nr sel' dl]
            by auto
          have "n = MaxAttempts config - (attempt + 1)"
            using Suc.hyps(2) by simp
          from Suc.hyps(1) [OF this eq] more
          obtain new' where new': "tr' = (tr2 @ [(SelectCall delay, w3), (DelayCall delay, w4)]) @ new'"
            and cr: "cancellationRespected ctx (\<lambda>e. r = Some e) new'"
            and fin: "\<And>x. Err ctx w4 = Some x \<Longrightarrow> new' = [] \<and> r = Some x"
            by auto
          let ?R = "\<lambda>e. r = Some e"
          let ?sel = "(SelectCall delay, w3)" and ?del = "(DelayCall delay, w4)"
          have cr4: "cancellationRespected ctx ?R (?del # new')"
          proof (cases "Err ctx w4")
            case None
            with cr show ?thesis by simp
          next
            case (Some x)
            with fin [OF Some] cr show ?thesis by simp
          qed
          have cr3: "cancellationRespected ctx ?R (?sel # ?del # new')"
          proof (cases "Err ctx w3")
            case None
            with cr4 show ?thesis by simp
          next
            case (Some x)
            with fin [OF s4 [OF Some]] cr4 show ?thesis by simp
          qed
          have crx: "cancellationRespected ctx ?R (extra @ ?sel # ?del # new')"
          proof (cases "extra = []")
            case True
            with cr3 show ?thesis by simp
          next
            case False
            with extra have ex: "extra = [(OnRetryCall (attempt + 1) (Some e) delay, w2)]"
              by simp
            show ?thesis
            proof (cases "Err ctx w2")
              case None
              with ex cr3 show ?thesis by simp
            next
              case (Some x)
              with fin [OF s4 [OF s3 [OF Some]]] ex cr3 show ?thesis by simp
            qed
          qed
          have cr1: "cancellationRespected ctx ?R (?one @ extra @ ?sel # ?del # new')"
            using crx e1 by simp
          show ?thesis
            using new' tr2 cr1 e0
            by (intro exI [of _ "?one @ extra @ ?sel # ?del # new'"]) simp
        qed
      qed
    qed
  qed
qed

lemma context_error_is_cancellation:
  assumes "e = Canceled \<or> e = DeadlineExceeded"
  shows "isCancellation e" and "\<not> errors_Is (Some e) (Some ErrAllAttemptsFailed)"
  using assms by (auto simp: isCancellation_def errors_Is_def)

text \<open>
  Claim C7. Let the context keep its contract: \<open>Err\<close> returns nil, \<open>Canceled\<close> or
  \<open>DeadlineExceeded\<close>; once it is non-nil it stays the same through a wait and through a
  call of the backoff policy; and it is non-nil once \<^verbatim>\<open>Done\<close> is closed. Let the
  configuration have a backoff policy. Then, for \<open>Do\<close>, for \<open>DoWithValue\<close> and for the
  earlier copy of \<open>Do\<close>:

  \<^item> when the context is cancelled as the first attempt starts, the executor returns the
    context's error, having called \<open>MinDelay\<close> and nothing else;

  \<^item> at every attempt of either loop, when the context is cancelled as the attempt
    starts, the loop returns the context's error at once: no call is made, the world and
    the captured variables are unchanged;

  \<^item> when the first attempt fails with an error that is going to be retried and the
    context is cancelled during the wait that follows, the executor returns the context's
    error, which matches \<open>Canceled\<close> or \<open>DeadlineExceeded\<close> and does not match
    \<open>ErrAllAttemptsFailed\<close>; the wait is its last call and the operation has been invoked
    once;

  \<^item> in every run, after a call that leaves the context cancelled the operation is never
    invoked again; if that call is the one just before an attempt starts, it is the last
    call and the run returns the context's error; if it is a wait, the run returns the
    context's error.
\<close>

theorem cancellation_stops_the_executor:
  assumes contract0: "\<forall>x e. Err ctx x = Some e \<longrightarrow> e = Canceled \<or> e = DeadlineExceeded"
    and done0: "\<forall>d x. fst (selectDone ctx d x) \<longrightarrow> Err ctx (snd (selectDone ctx d x)) \<noteq> None"
    and sticky_select0:
      "\<forall>d x e. Err ctx x = Some e \<longrightarrow> Err ctx (snd (selectDone ctx d x)) = Some e"
    and sticky_delay0:
      "\<forall>d x e. Err ctx x = Some e \<longrightarrow> Err ctx (snd (Backoff_Delay b d x)) = Some e"
    and backoff: "Backoff config = Some b"
    and md: "Backoff_MinDelay b w = (d\<^sub>0, w\<^sub>0)"
  shows "(\<forall>e. Err ctx w\<^sub>0 = Some e \<longrightarrow>
            Do ctx config op w = (Return (Some e), w\<^sub>0, [(MinDelayCall, w\<^sub>0)]) \<and>
            DoWithValue zero ctx config opv w =
              (Return (zero, Some e), w\<^sub>0, [(MinDelayCall, w\<^sub>0)]) \<and>
            Do_inline ctx config op w = (Some e, w\<^sub>0, [(MinDelayCall, w\<^sub>0)])) \<and>
         (\<forall>attempt delay x c tr lastErr e.
            attempt < MaxAttempts config \<and> Err ctx x = Some e \<longrightarrow>
            doRetry_loop ctx config operation attempt delay x c tr =
              (Return (Some e), x, c, tr) \<and>
            Do_inline_loop ctx config b p op attempt delay x lastErr tr = (Some e, x, tr)) \<and>
         (\<forall>e\<^sub>1 v\<^sub>1 w\<^sub>1 w\<^sub>2 tr\<^sub>2 w\<^sub>3.
            Err ctx w\<^sub>0 = None \<and> op w\<^sub>0 = (Some e\<^sub>1, w\<^sub>1) \<and> opv w\<^sub>0 = ((v\<^sub>1, Some e\<^sub>1), w\<^sub>1) \<and>
            Err ctx w\<^sub>1 = None \<and>
            \<not> errors_Is (Some e\<^sub>1) (Some Canceled) \<and>
            \<not> errors_Is (Some e\<^sub>1) (Some DeadlineExceeded) \<and>
            (case IsRecoverable config of
               None \<Rightarrow> \<not> IsUnrecoverableError (Some e\<^sub>1) | Some q \<Rightarrow> q (Some e\<^sub>1)) \<and>
            1 < MaxAttempts config \<and>
            notifyRetry config 1 (Some e\<^sub>1) d\<^sub>0 w\<^sub>1 [(MinDelayCall, w\<^sub>0), (OpCall 0, w\<^sub>1)] =
              (w\<^sub>2, tr\<^sub>2) \<and>
            selectDone ctx d\<^sub>0 w\<^sub>2 = (True, w\<^sub>3) \<longrightarrow>
            (\<exists>e. Err ctx w\<^sub>3 = Some e \<and> isCancellation e \<and>
                 Do ctx config op w = (Return (Some e), w\<^sub>3, tr\<^sub>2 @ [(SelectCall d\<^sub>0, w\<^sub>3)]) \<and>
                 DoWithValue zero ctx config opv w =
                   (Return (zero, Some e), w\<^sub>3, tr\<^sub>2 @ [(SelectCall d\<^sub>0, w\<^sub>3)]) \<and>
                 Do_inline ctx config op w = (Some e, w\<^sub>3, tr\<^sub>2 @ [(SelectCall d\<^sub>0, w\<^sub>3)]))) \<and>
         cancellationRespected ctx
           (\<lambda>e. fst (Do ctx config op w) = Return (Some e) \<and> isCancellation e)
           (snd (snd (Do ctx config op w))) \<and>
         cancellationRespected ctx
           (\<lambda>e. fst (DoWithValue zero ctx config opv w) = Return (zero, Some e) \<and> isCancellation e)
           (snd (snd (DoWithValue zero ctx config opv w))) \<and>
         cancellationRespected ctx
           (\<lambda>e. fst (Do_inline ctx config op w) = Some e \<and> isCancellation e)
           (snd (snd (Do_inline ctx config op w)))"
  (is "?entry \<and> ?loops \<and> ?wait \<and> ?run1 \<and> ?run2 \<and> ?run3")
proof -
  note contract = contract0 [rule_format]
  note sticky_select = sticky_select0 [rule_format]
  note sd = sticky_delay0 [rule_format]
  let ?cfg = "snd (validateConfig config)"
  let ?icfg = "if MaxAttempts config = 0 then config\<lparr>MaxAttempts := 1\<rparr> else config"
  let ?p = "case IsRecoverable config of None \<Rightarrow> defaultRecoverable | Some q \<Rightarrow> q"
  let ?ip = "case IsRecoverable config of None \<Rightarrow> defaultRecoverable_inline | Some q \<Rightarrow> q"
  have pos: "0 < MaxAttempts ?cfg"
    using validateConfig_ok(3) [OF backoff] by simp
  have b': "Backoff ?cfg = Some b"
    using validateConfig_ok(2) [OF backoff] .
  have ipos: "0 < MaxAttempts ?icfg"
    by simp
  have notExhaustion: "\<not> errors_Is (Some e) (Some ErrAllAttemptsFailed)" if "Err ctx x = Some e" for x e
    using context_error_is_cancellation(2) [OF contract [OF that]] .
  have entry: ?entry
  proof (intro allI impI)
    fix e
    assume E: "Err ctx w\<^sub>0 = Some e"
    note ne = notExhaustion [OF E]
    have "doRetry_loop ctx ?cfg (Do_operation op) 0 d\<^sub>0 w\<^sub>0 None [(MinDelayCall, w\<^sub>0)] =
            (Return (Some e), w\<^sub>0, None, [(MinDelayCall, w\<^sub>0)])"
      using pos E by (rule loop_cancelled)
    from Do_unfold [OF backoff md this] ne
    have 1: "Do ctx config op w = (Return (Some e), w\<^sub>0, [(MinDelayCall, w\<^sub>0)])"
      by simp
    have "doRetry_loop ctx ?cfg (DoWithValue_operation opv) 0 d\<^sub>0 w\<^sub>0 (zero, None)
            [(MinDelayCall, w\<^sub>0)] =
            (Return (Some e), w\<^sub>0, (zero, None), [(MinDelayCall, w\<^sub>0)])"
      using pos E by (rule loop_cancelled)
    from DoWithValue_unfold [OF backoff md this] ne
    have 2: "DoWithValue zero ctx config opv w =
               (Return (zero, Some e), w\<^sub>0, [(MinDelayCall, w\<^sub>0)])"
      by simp
    have 3: "Do_inline ctx config op w = (Some e, w\<^sub>0, [(MinDelayCall, w\<^sub>0)])"
      unfolding Do_inline_unfold [OF backoff md] using ipos E by (rule inline_cancelled)
    from 1 2 3
    show "Do ctx config op w = (Return (Some e), w\<^sub>0, [(MinDelayCall, w\<^sub>0)]) \<and>
          DoWithValue zero ctx config opv w =
            (Return (zero, Some e), w\<^sub>0, [(MinDelayCall, w\<^sub>0)]) \<and>
          Do_inline ctx config op w = (Some e, w\<^sub>0, [(MinDelayCall, w\<^sub>0)])"
      by simp
  qed
  have loops: ?loops
    by (simp add: loop_cancelled inline_cancelled)
  have wait: ?wait
  proof (intro allI impI)
    fix e\<^sub>1 v\<^sub>1 w\<^sub>1 w\<^sub>2 tr\<^sub>2 w\<^sub>3
    assume H: "Err ctx w\<^sub>0 = None \<and> op w\<^sub>0 = (Some e\<^sub>1, w\<^sub>1) \<and> opv w\<^sub>0 = ((v\<^sub>1, Some e\<^sub>1), w\<^sub>1) \<and>
            Err ctx w\<^sub>1 = None \<and>
            \<not> errors_Is (Some e\<^sub>1) (Some Canceled) \<and>
            \<not> errors_Is (Some e\<^sub>1) (Some DeadlineExceeded) \<and>
            (case IsRecoverable config of
               None \<Rightarrow> \<not> IsUnrecoverableError (Some e\<^sub>1) | Some q \<Rightarrow> q (Some e\<^sub>1)) \<and>
            1 < MaxAttempts config \<and>
            notifyRetry config 1 (Some e\<^sub>1) d\<^sub>0 w\<^sub>1 [(MinDelayCall, w\<^sub>0), (OpCall 0, w\<^sub>1)] =
              (w\<^sub>2, tr\<^sub>2) \<and>
            selectDone ctx d\<^sub>0 w\<^sub>2 = (True, w\<^sub>3)"
    then have E0: "Err ctx w\<^sub>0 = None" and O: "op w\<^sub>0 = (Some e\<^sub>1, w\<^sub>1)"
      and OV: "opv w\<^sub>0 = ((v\<^sub>1, Some e\<^sub>1), w\<^sub>1)" and E1: "Err ctx w\<^sub>1 = None"
      and nC: "\<not> errors_Is (Some e\<^sub>1) (Some Canceled)"
      and nD: "\<not> errors_Is (Some e\<^sub>1) (Some DeadlineExceeded)"
      and acc: "case IsRecoverable config of
                  None \<Rightarrow> \<not> IsUnrecoverableError (Some e\<^sub>1) | Some q \<Rightarrow> q (Some e\<^sub>1)"
      and more: "1 < MaxAttempts config"
      and N: "notifyRetry config 1 (Some e\<^sub>1) d\<^sub>0 w\<^sub>1 [(MinDelayCall, w\<^sub>0), (OpCall 0, w\<^sub>1)] =
                (w\<^sub>2, tr\<^sub>2)"
      and S: "selectDone ctx d\<^sub>0 w\<^sub>2 = (True, w\<^sub>3)"
      by simp_all
    from done0 [rule_format, of d\<^sub>0 w\<^sub>2] S obtain e where E3: "Err ctx w\<^sub>3 = Some e"
      by auto
    note ne = notExhaustion [OF E3]
    have canc: "isCancellation e"
      using context_error_is_cancellation(1) [OF contract [OF E3]] .
    have rec: "IsRecoverable ?cfg = Some ?p"
      using validateConfig_ok(4) [OF backoff] .
    have p: "?p (Some e\<^sub>1)"
      using acc nC nD by (cases "IsRecoverable config") (simp_all add: defaultRecoverable_def)
    have ip: "?ip (Some e\<^sub>1)"
      using acc nC by (cases "IsRecoverable config") (simp_all add: defaultRecoverable_inline_def)
    have lt: "0 < MaxAttempts ?cfg" "\<not> MaxAttempts ?cfg \<le> 0 + 1"
      using validateConfig_ok(3) [OF backoff] more by simp_all
    have ilt: "0 < MaxAttempts ?icfg" "\<not> MaxAttempts ?icfg \<le> 0 + 1"
      using more by simp_all
    have N': "notifyRetry ?cfg (0 + 1) (Some e\<^sub>1) d\<^sub>0 w\<^sub>1 ([(MinDelayCall, w\<^sub>0)] @ [(OpCall 0, w\<^sub>1)]) =
                (w\<^sub>2, tr\<^sub>2)"
      using N validateConfig_ok(5) [OF backoff] by (simp add: notifyRetry_def)
    have iN: "notifyRetry ?icfg (0 + 1) (Some e\<^sub>1) d\<^sub>0 w\<^sub>1 ([(MinDelayCall, w\<^sub>0)] @ [(OpCall 0, w\<^sub>1)]) =
                (w\<^sub>2, tr\<^sub>2)"
      using N by (simp add: notifyRetry_def)
    have o1: "Do_operation op 0 w\<^sub>0 None = ((False, Some e\<^sub>1), w\<^sub>1, Some e\<^sub>1)"
      using O by (simp add: Do_operation_def)
    have o2: "DoWithValue_operation opv 0 w\<^sub>0 (zero, None) =
                ((False, Some e\<^sub>1), w\<^sub>1, (v\<^sub>1, Some e\<^sub>1))"
      using OV by (simp add: DoWithValue_operation_def)
    have "doRetry_loop ctx ?cfg (Do_operation op) 0 d\<^sub>0 w\<^sub>0 None [(MinDelayCall, w\<^sub>0)] =
            (Return (Err ctx w\<^sub>3), w\<^sub>3, Some e\<^sub>1, tr\<^sub>2 @ [(SelectCall d\<^sub>0, w\<^sub>3)])"
      using lt(1) E0 o1 nC nD E1 rec p lt(2) N' S by (rule loop_wait_cancelled)
    from Do_unfold [OF backoff md this] ne E3
    have 1: "Do ctx config op w = (Return (Some e), w\<^sub>3, tr\<^sub>2 @ [(SelectCall d\<^sub>0, w\<^sub>3)])"
      by simp
    have "doRetry_loop ctx ?cfg (DoWithValue_operation opv) 0 d\<^sub>0 w\<^sub>0 (zero, None)
            [(MinDelayCall, w\<^sub>0)] =
            (Return (Err ctx w\<^sub>3), w\<^sub>3, (v\<^sub>1, Some e\<^sub>1), tr\<^sub>2 @ [(SelectCall d\<^sub>0, w\<^sub>3)])"
      using lt(1) E0 o2 nC nD E1 rec p lt(2) N' S by (rule loop_wait_cancelled)
    from DoWithValue_unfold [OF backoff md this] ne E3
    have 2: "DoWithValue zero ctx config opv w =
               (Return (zero, Some e), w\<^sub>3, tr\<^sub>2 @ [(SelectCall d\<^sub>0, w\<^sub>3)])"
      by simp
    have "Do_inline_loop ctx ?icfg b ?ip op 0 d\<^sub>0 w\<^sub>0 None [(MinDelayCall, w\<^sub>0)] =
            (Err ctx w\<^sub>3, w\<^sub>3, tr\<^sub>2 @ [(SelectCall d\<^sub>0, w\<^sub>3)])"
      using ilt(1) E0 O nC E1 ip ilt(2) iN S by (rule inline_wait_cancelled)
    then have 3: "Do_inline ctx config op w = (Some e, w\<^sub>3, tr\<^sub>2 @ [(SelectCall d\<^sub>0, w\<^sub>3)])"
      unfolding Do_inline_unfold [OF backoff md] using E3 by simp
    from E3 canc 1 2 3
    show "\<exists>e. Err ctx w\<^sub>3 = Some e \<and> isCancellation e \<and>
              Do ctx config op w = (Return (Some e), w\<^sub>3, tr\<^sub>2 @ [(SelectCall d\<^sub>0, w\<^sub>3)]) \<and>
              DoWithValue zero ctx config opv w =
                (Return (zero, Some e), w\<^sub>3, tr\<^sub>2 @ [(SelectCall d\<^sub>0, w\<^sub>3)]) \<and>
              Do_inline ctx config op w = (Some e, w\<^sub>3, tr\<^sub>2 @ [(SelectCall d\<^sub>0, w\<^sub>3)])"
      by blast
  qed
  have run1: ?run1
  proof -
    let ?L = "doRetry_loop ctx ?cfg (Do_operation op) 0 d\<^sub>0 w\<^sub>0 None [(MinDelayCall, w\<^sub>0)]"
    obtain r w' lastErr tr where run: "?L = (r, w', lastErr, tr)"
      by (cases ?L) auto
    from doRetry_loop_respects_cancellation [OF sticky_select sd b' run] pos
    obtain new where tr: "tr = [(MinDelayCall, w\<^sub>0)] @ new"
      and cr: "cancellationRespected ctx (\<lambda>e. r = Return (Some e)) new"
      and fin: "\<And>e. Err ctx w\<^sub>0 = Some e \<Longrightarrow> new = [] \<and> r = Return (Some e)"
      by auto
    note U = Do_unfold [OF backoff md run]
    have trace: "snd (snd (Do ctx config op w)) = tr"
      by (simp add: U split: outcome.split)
    have ret: "fst (Do ctx config op w) = Return (Some e) \<and> isCancellation e"
      if "Err ctx x = Some e" and "r = Return (Some e)" for x e
      using that context_error_is_cancellation [OF contract [OF that(1)]]
      by (simp add: U)
    have "cancellationRespected ctx
            (\<lambda>e. fst (Do ctx config op w) = Return (Some e) \<and> isCancellation e) new"
      using cr by (rule cancellationRespected_mono) (rule ret)
    then have "cancellationRespected ctx
            (\<lambda>e. fst (Do ctx config op w) = Return (Some e) \<and> isCancellation e)
            ((MinDelayCall, w\<^sub>0) # new)"
      using fin ret by (cases "Err ctx w\<^sub>0") auto
    with trace tr show ?thesis
      by simp
  qed
  have run2: ?run2
  proof -
    let ?L = "doRetry_loop ctx ?cfg (DoWithValue_operation opv) 0 d\<^sub>0 w\<^sub>0 (zero, None)
                [(MinDelayCall, w\<^sub>0)]"
    obtain r w' result lastErr tr where run: "?L = (r, w', (result, lastErr), tr)"
      by (cases ?L) auto
    from doRetry_loop_respects_cancellation [OF sticky_select sd b' run] pos
    obtain new where tr: "tr = [(MinDelayCall, w\<^sub>0)] @ new"
      and cr: "cancellationRespected ctx (\<lambda>e. r = Return (Some e)) new"
      and fin: "\<And>e. Err ctx w\<^sub>0 = Some e \<Longrightarrow> new = [] \<and> r = Return (Some e)"
      by auto
    note U = DoWithValue_unfold [OF backoff md run]
    have trace: "snd (snd (DoWithValue zero ctx config opv w)) = tr"
      by (simp add: U split: outcome.split)
    have ret: "fst (DoWithValue zero ctx config opv w) = Return (zero, Some e) \<and> isCancellation e"
      if "Err ctx x = Some e" and "r = Return (Some e)" for x e
      using that context_error_is_cancellation [OF contract [OF that(1)]]
      by (simp add: U)
    have "cancellationRespected ctx
            (\<lambda>e. fst (DoWithValue zero ctx config opv w) = Return (zero, Some e) \<and>
                 isCancellation e) new"
      using cr by (rule cancellationRespected_mono) (rule ret)
    then have "cancellationRespected ctx
            (\<lambda>e. fst (DoWithValue zero ctx config opv w) = Return (zero, Some e) \<and>
                 isCancellation e)
            ((MinDelayCall, w\<^sub>0) # new)"
      using fin ret by (cases "Err ctx w\<^sub>0") auto
    with trace tr show ?thesis
      by simp
  qed
  have run3: ?run3
  proof -
    let ?icfg = "if MaxAttempts config = 0 then config\<lparr>MaxAttempts := 1\<rparr> else config"
    let ?p = "case IsRecoverable config of None \<Rightarrow> defaultRecoverable_inline | Some p \<Rightarrow> p"
    let ?L = "Do_inline_loop ctx ?icfg b ?p op 0 d\<^sub>0 w\<^sub>0 None [(MinDelayCall, w\<^sub>0)]"
    have ipos: "0 < MaxAttempts ?icfg"
      by simp
    obtain r w' tr where run: "?L = (r, w', tr)"
      by (cases ?L) auto
    from Do_inline_loop_respects_cancellation [OF sticky_select sd run] ipos
    obtain new where tr: "tr = [(MinDelayCall, w\<^sub>0)] @ new"
      and cr: "cancellationRespected ctx (\<lambda>e. r = Some e) new"
      and fin: "\<And>e. Err ctx w\<^sub>0 = Some e \<Longrightarrow> new = [] \<and> r = Some e"
      by auto
    have U: "Do_inline ctx config op w = (r, w', tr)"
      using Do_inline_unfold [OF backoff md, of ctx op] run by simp
    have ret: "fst (Do_inline ctx config op w) = Some e \<and> isCancellation e"
      if "Err ctx x = Some e" and "r = Some e" for x e
      using that context_error_is_cancellation [OF contract [OF that(1)]]
      by (simp add: U)
    have "cancellationRespected ctx
            (\<lambda>e. fst (Do_inline ctx config op w) = Some e \<and> isCancellation e) new"
      using cr by (rule cancellationRespected_mono) (rule ret)
    then have "cancellationRespected ctx
            (\<lambda>e. fst (Do_inline ctx config op w) = Some e \<and> isCancellation e)
            ((MinDelayCall, w\<^sub>0) # new)"
      using fin ret by (cases "Err ctx w\<^sub>0") auto
    with U tr show ?thesis
      by simp
  qed
  from entry loops wait run1 run2 run3 show ?thesis
    by (intro conjI)
qed

theorem cancellation_stops_the_executor_witness:
  "Do cancelled (testConfig 5) alwaysFails (0, False) =
     (Return (Some Canceled), (0, False), [(MinDelayCall, (0, False))]) \<and>
   DoWithValue [] cancelled (testConfig 5) alwaysFailsV (0, False) =
     (Return ([], Some Canceled), (0, False), [(MinDelayCall, (0, False))]) \<and>
   Do_inline cancelled (testConfig 5) alwaysFails (0, False) =
     (Some Canceled, (0, False), [(MinDelayCall, (0, False))]) \<and>
   Do cancelledWhileWaiting (testConfig 5) alwaysFails (0, False) =
     (Return (Some Canceled), (1, True),
      [(MinDelayCall, (0, False)), (OpCall 0, (1, False)),
       (OnRetryCall 1 (Some persistentError) 10, (1, False)), (SelectCall 10, (1, True))]) \<and>
   DoWithValue [] cancelledWhileWaiting (testConfig 5) alwaysFailsV (0, False) =
     (Return ([], Some Canceled), (1, True),
      [(MinDelayCall, (0, False)), (OpCall 0, (1, False)),
       (OnRetryCall 1 (Some persistentError) 10, (1, False)), (SelectCall 10, (1, True))]) \<and>
   Do_inline cancelledWhileWaiting (testConfig 5) alwaysFails (0, False) =
     (Some Canceled, (1, True),
      [(MinDelayCall, (0, False)), (OpCall 0, (1, False)),
       (OnRetryCall 1 (Some persistentError) 10, (1, False)), (SelectCall 10, (1, True))]) \<and>
   errors_Is (Some Canceled) (Some Canceled) \<and>
   \<not> errors_Is (Some Canceled) (Some ErrAllAttemptsFailed)"
proof -
  have b: "Backoff (testConfig 5) = Some mockB"
    and m: "Backoff_MinDelay mockB (0, False) = (10, (0, False))"
    by (simp_all add: testConfig_def mockB_def)
  have c1: "\<forall>x e. Err cancelled x = Some e \<longrightarrow> e = Canceled \<or> e = DeadlineExceeded"
    and d1: "\<forall>d x. fst (selectDone cancelled d x) \<longrightarrow>
               Err cancelled (snd (selectDone cancelled d x)) \<noteq> None"
    and s1: "\<forall>d x e. Err cancelled x = Some e \<longrightarrow>
               Err cancelled (snd (selectDone cancelled d x)) = Some e"
    and k1: "\<forall>d x e. Err cancelled x = Some e \<longrightarrow>
               Err cancelled (snd (Backoff_Delay mockB d x)) = Some e"
    by (simp_all add: cancelled_def mockB_def)
  have c2: "\<forall>x e. Err cancelledWhileWaiting x = Some e \<longrightarrow> e = Canceled \<or> e = DeadlineExceeded"
    and d2: "\<forall>d x. fst (selectDone cancelledWhileWaiting d x) \<longrightarrow>
               Err cancelledWhileWaiting (snd (selectDone cancelledWhileWaiting d x)) \<noteq> None"
    and s2: "\<forall>d x e. Err cancelledWhileWaiting x = Some e \<longrightarrow>
               Err cancelledWhileWaiting (snd (selectDone cancelledWhileWaiting d x)) = Some e"
    and k2: "\<forall>d x e. Err cancelledWhileWaiting x = Some e \<longrightarrow>
               Err cancelledWhileWaiting (snd (Backoff_Delay mockB d x)) = Some e"
    by (simp_all add: cancelledWhileWaiting_def mockB_def)
  note T1 = cancellation_stops_the_executor
    [OF c1 d1 s1 k1 b m, where op = alwaysFails and opv = alwaysFailsV and zero = "[]"]
  note T2 = cancellation_stops_the_executor
    [OF c2 d2 s2 k2 b m, where op = alwaysFails and opv = alwaysFailsV and zero = "[]"]
  have entry: "Do cancelled (testConfig 5) alwaysFails (0, False) =
       (Return (Some Canceled), (0, False), [(MinDelayCall, (0, False))]) \<and>
     DoWithValue [] cancelled (testConfig 5) alwaysFailsV (0, False) =
       (Return ([], Some Canceled), (0, False), [(MinDelayCall, (0, False))]) \<and>
     Do_inline cancelled (testConfig 5) alwaysFails (0, False) =
       (Some Canceled, (0, False), [(MinDelayCall, (0, False))])"
    by (rule T1 [THEN conjunct1, rule_format]) (simp add: cancelled_def)
  have "\<exists>e. Err cancelledWhileWaiting (1, True) = Some e \<and> isCancellation e \<and>
      Do cancelledWhileWaiting (testConfig 5) alwaysFails (0, False) =
        (Return (Some e), (1, True),
         [(MinDelayCall, (0, False)), (OpCall 0, (1, False)),
          (OnRetryCall 1 (Some persistentError) 10, (1, False))] @ [(SelectCall 10, (1, True))]) \<and>
      DoWithValue [] cancelledWhileWaiting (testConfig 5) alwaysFailsV (0, False) =
        (Return ([], Some e), (1, True),
         [(MinDelayCall, (0, False)), (OpCall 0, (1, False)),
          (OnRetryCall 1 (Some persistentError) 10, (1, False))] @ [(SelectCall 10, (1, True))]) \<and>
      Do_inline cancelledWhileWaiting (testConfig 5) alwaysFails (0, False) =
        (Some e, (1, True),
         [(MinDelayCall, (0, False)), (OpCall 0, (1, False)),
          (OnRetryCall 1 (Some persistentError) 10, (1, False))] @ [(SelectCall 10, (1, True))])"
    by (rule T2 [THEN conjunct2, THEN conjunct2, THEN conjunct1, rule_format,
            where e\<^sub>1 = persistentError and v\<^sub>1 = "[]" and w\<^sub>1 = "(1, False)"
              and w\<^sub>2 = "(1, False)"])
      (simp add: cancelledWhileWaiting_def testConfig_def mockB_def alwaysFails_def
        alwaysFailsV_def persistentError_def notifyRetry_def errors_Is_def
        IsUnrecoverableError_def Let_def)
  then have wait: "Do cancelledWhileWaiting (testConfig 5) alwaysFails (0, False) =
        (Return (Some Canceled), (1, True),
         [(MinDelayCall, (0, False)), (OpCall 0, (1, False)),
          (OnRetryCall 1 (Some persistentError) 10, (1, False)), (SelectCall 10, (1, True))]) \<and>
      DoWithValue [] cancelledWhileWaiting (testConfig 5) alwaysFailsV (0, False) =
        (Return ([], Some Canceled), (1, True),
         [(MinDelayCall, (0, False)), (OpCall 0, (1, False)),
          (OnRetryCall 1 (Some persistentError) 10, (1, False)), (SelectCall 10, (1, True))]) \<and>
      Do_inline cancelledWhileWaiting (testConfig 5) alwaysFails (0, False) =
        (Some Canceled, (1, True),
         [(MinDelayCall, (0, False)), (OpCall 0, (1, False)),
          (OnRetryCall 1 (Some persistentError) 10, (1, False)), (SelectCall 10, (1, True))])"
    by (auto simp: cancelledWhileWaiting_def)
  from entry wait show ?thesis
    by (simp add: errors_Is_def)
qed

end
